theory Spec2Isabelle
  imports Complex_Main "HOL-Library.Sublist"
begin

section \<open>ErrorHandler (core/error\_handler.py)\<close>

text \<open>
  Python floats are modelled as reals and Python's unbounded integers as \<open>int\<close>.
  The enumerations \<open>ErrorType\<close> and \<open>RecoveryStrategy\<close> keep the member names of the source.
\<close>

datatype ErrorType =
    TIMEOUT | ELEMENT_NOT_FOUND | PERMISSION_DENIED | NETWORK_ERROR
  | JSON_PARSE_ERROR | TOOL_EXECUTION_ERROR | VALIDATION_ERROR | UNKNOWN_ERROR

datatype RecoveryStrategy = RETRY | SKIP | ABORT | FALLBACK | MANUAL_INTERVENTION

text \<open>
  \<open>ErrorContext\<close>: the fields the recovery logic reads. The exception object, the arguments,
  the time stamp, the stack trace and the free-form metadata are carried by the source but
  never inspected by the functions below.
\<close>

record ErrorContext =
  error_type :: ErrorType
  error_message :: string
  retry_count :: int

text \<open>\<open>RecoveryAction\<close>; the human-readable message is a template text that no decision reads.\<close>

record RecoveryAction =
  strategy :: RecoveryStrategy
  should_retry :: bool
  retry_delay :: real
  max_retries :: int
  confidence :: real

text \<open>The class constant \<open>ERROR_RECOVERY_MAP\<close>; it has an entry for every error type.\<close>

fun ERROR_RECOVERY_MAP :: "ErrorType \<Rightarrow> RecoveryStrategy" where
  "ERROR_RECOVERY_MAP TIMEOUT = RETRY"
| "ERROR_RECOVERY_MAP ELEMENT_NOT_FOUND = RETRY"
| "ERROR_RECOVERY_MAP NETWORK_ERROR = RETRY"
| "ERROR_RECOVERY_MAP TOOL_EXECUTION_ERROR = RETRY"
| "ERROR_RECOVERY_MAP JSON_PARSE_ERROR = FALLBACK"
| "ERROR_RECOVERY_MAP PERMISSION_DENIED = ABORT"
| "ERROR_RECOVERY_MAP VALIDATION_ERROR = ABORT"
| "ERROR_RECOVERY_MAP UNKNOWN_ERROR = MANUAL_INTERVENTION"

text \<open>The local table \<open>base_confidence\<close> of \<open>_calculate_confidence\<close>.\<close>

fun base_confidence :: "RecoveryStrategy \<Rightarrow> real" where
  "base_confidence RETRY = 7 / 10"
| "base_confidence SKIP = 5 / 10"
| "base_confidence ABORT = 9 / 10"
| "base_confidence FALLBACK = 6 / 10"
| "base_confidence MANUAL_INTERVENTION = 3 / 10"

text \<open>
  \<open>_calculate_confidence\<close>: table value, category adjustment, one multiplication by 0.9
  guarded by \<open>retry_count > 0\<close>, and the final clamp to the unit interval.
\<close>

definition calculate_confidence :: "ErrorContext \<Rightarrow> RecoveryStrategy \<Rightarrow> real" where
  "calculate_confidence error_context strat =
     (let b0 = base_confidence strat;
          b1 = (if error_type error_context \<in> {TIMEOUT, NETWORK_ERROR}
                then (if strat = RETRY then 8 / 10 else b0)
                else if error_type error_context = PERMISSION_DENIED
                then (if strat = ABORT then 95 / 100 else b0)
                else b0);
          b2 = (if retry_count error_context > 0 then b1 * (9 / 10) else b1)
      in min 1 (max 0 b2))"

text \<open>
  \<open>get_recovery_strategy\<close>: table lookup, demotion of \<open>RETRY\<close> once the retry budget is
  used up, the retry flag and the confidence.
\<close>

definition get_recovery_strategy :: "ErrorContext \<Rightarrow> int \<Rightarrow> real \<Rightarrow> RecoveryAction" where
  "get_recovery_strategy error_context max_retries_arg retry_delay_arg =
     (let et = error_type error_context;
          rc = retry_count error_context;
          default_strategy = ERROR_RECOVERY_MAP et;
          default_strategy' =
            (if rc \<ge> max_retries_arg \<and> default_strategy = RETRY
             then (if et \<in> {TIMEOUT, NETWORK_ERROR} then SKIP else ABORT)
             else default_strategy)
      in \<lparr> strategy = default_strategy',
           should_retry = (default_strategy' = RETRY \<and> rc < max_retries_arg),
           retry_delay = retry_delay_arg,
           max_retries = max_retries_arg,
           confidence = calculate_confidence error_context default_strategy' \<rparr>)"

text \<open>
  Python's \<open>2 ** n\<close> on an integer exponent: an integer power for \<open>n \<ge> 0\<close>, the float
  \<open>1 / 2 ** (-n)\<close> for a negative one.
\<close>

definition py_pow2 :: "int \<Rightarrow> real" where
  "py_pow2 n = (if n \<ge> 0 then 2 ^ nat n else 1 / 2 ^ nat (- n))"

text \<open>
  \<open>get_retry_delay\<close>. The base delay is a float, so the product
  \<open>base_delay * (2 ** retry_count)\<close> first converts the integer power to a float. That
  conversion raises \<open>OverflowError\<close> once the power reaches \<open>2 ** 1024\<close>, before \<open>min\<close> is
  applied; \<open>Inl\<close> carries the name of the exception.
\<close>

definition get_retry_delay :: "ErrorContext \<Rightarrow> real \<Rightarrow> bool \<Rightarrow> string + real" where
  "get_retry_delay error_context base_delay use_exponential_backoff =
     (if \<not> use_exponential_backoff then Inr base_delay
      else if retry_count error_context \<ge> 1024 then Inl ''OverflowError''
      else Inr (min (base_delay * py_pow2 (retry_count error_context)) 60))"

text \<open>
  The spec's reading of the confidence: the base rate after the category adjustment,
  to be decayed afterwards.
\<close>

definition adjusted_base_rate :: "ErrorType \<Rightarrow> RecoveryStrategy \<Rightarrow> real" where
  "adjusted_base_rate et strat =
     (if et \<in> {TIMEOUT, NETWORK_ERROR} \<and> strat = RETRY then 8 / 10
      else if et = PERMISSION_DENIED \<and> strat = ABORT then 95 / 100
      else base_confidence strat)"

section \<open>Core types (core/types.py)\<close>

datatype ActionType = GUI | CODE | MCP

datatype TaskStatus = PENDING | RUNNING | COMPLETED | FAILED | CANCELLED

text \<open>Argument maps and variable bags are dictionaries from strings to (rendered) values.\<close>

record Action =
  a_type :: ActionType
  a_tool :: string
  a_args :: "(string \<times> string) list"
  a_description :: string

text \<open>
  \<open>ActionResult\<close>; \<open>data\<close> is the optional payload. The execution time and the time stamp
  are not read by the executors.
\<close>

record ActionResult =
  action_id :: string
  success :: bool
  data :: "string option"
  error :: "string option"
  message :: string

text \<open>
  \<open>StepDecision\<close> as \<open>_parse_decision_response\<close> builds it from the oracle's JSON. The flags
  are the truth values of the JSON fields. The parser passes the \<open>confidence\<close> field through
  unchecked, so it need not be a number: \<open>None\<close> stands for any value that the float format
  \<open>:.2f\<close> rejects (a string, null, a list, an object).
\<close>

record StepDecision =
  action :: "Action option"
  should_continue :: bool
  sd_should_retry :: bool
  should_skip :: bool
  reasoning :: string
  sd_confidence :: "real option"

text \<open>Python truthiness of an optional payload: present and not empty.\<close>

definition truthy :: "string option \<Rightarrow> bool" where
  "truthy d = (case d of None \<Rightarrow> False | Some s \<Rightarrow> s \<noteq> [])"

text \<open>Decimal rendering of a step counter, as an f-string prints it.\<close>

definition digit_char :: "nat \<Rightarrow> char" where
  "digit_char d = char_of (48 + d)"

fun show_nat :: "nat \<Rightarrow> string" where
  "show_nat n = (if n < 10 then [digit_char n] else show_nat (n div 10) @ [digit_char (n mod 10)])"

declare show_nat.simps [simp del]

definition show_int :: "int \<Rightarrow> string" where
  "show_int i = (if i < 0 then CHR ''-'' # show_nat (nat (- i)) else show_nat (nat i))"

section \<open>AgentExecutor (core/agent\_executor.py)\<close>

text \<open>
  The collaborators are parameters. The oracle is indexed by the iteration number: for
  iteration \<open>n\<close> it either raises inside \<open>_decide_next_step\<close> (\<open>Inl\<close>, the exception text) or
  yields the parsed decision. The worker's \<open>execute_action\<close> catches every exception itself
  and always returns an \<open>ActionResult\<close>; the reflector likewise always returns a reflection.
\<close>

type_synonym step_oracle = "int \<Rightarrow> string + StepDecision"

type_synonym worker = "int \<Rightarrow> Action \<Rightarrow> ActionResult"

text \<open>\<open>_decide_next_step\<close>: an exception of the oracle call or of the parsing becomes a stop decision.\<close>

definition decide_next_step :: "step_oracle \<Rightarrow> int \<Rightarrow> StepDecision" where
  "decide_next_step orc n =
     (case orc n of
        Inl e \<Rightarrow> \<lparr> action = None, should_continue = False, sd_should_retry = False,
                   should_skip = False, reasoning = e, sd_confidence = Some 0 \<rparr>
      | Inr d \<Rightarrow> d)"

text \<open>\<open>_check_task_complete\<close>: at least one result, and all of them successful.\<close>

definition check_task_complete :: "ActionResult list \<Rightarrow> bool" where
  "check_task_complete rs = (if rs = [] then False else list_all success rs)"

text \<open>The local variables of \<open>execute_task\<close> that the loop updates.\<close>

record agent_state =
  step_count :: int
  action_results :: "ActionResult list"
  variables :: "string \<rightharpoonup> string"
  last_decision :: "StepDecision option"

text \<open>How one pass through a loop body ends: next iteration, \<open>break\<close>, or an exception.\<close>

datatype 'a flow = Continue 'a | Break 'a | Raise string 'a

text \<open>
  The body of the \<open>while\<close> loop. The retry branch only logs. The one statement of the body
  that can raise is the log line that formats the decision's confidence with \<open>:.2f\<close>,
  reached when the decision carries an action.
\<close>

definition loop_body :: "step_oracle \<Rightarrow> worker \<Rightarrow> agent_state \<Rightarrow> agent_state flow" where
  "loop_body orc wk st =
     (let n = step_count st + 1;
          st1 = st\<lparr>step_count := n\<rparr>;
          decision = decide_next_step orc n
      in if \<not> should_continue decision then Break st1
         else if should_skip decision then Continue st1
         else (case action decision of
                 None \<Rightarrow>
                   (let st2 = st1\<lparr>last_decision := Some decision\<rparr>
                    in if check_task_complete (action_results st2) then Break st2
                       else Continue st2)
               | Some a \<Rightarrow>
                   (case sd_confidence decision of
                      None \<Rightarrow> Raise ''Unknown format code'' st1
                    | Some c \<Rightarrow>
                       (let result = wk n a;
                            rs = action_results st1 @ [result];
                            vars = (if success result \<and> truthy (data result)
                                    then (variables st1)
                                           (''step_'' @ show_int n @ ''_result'' \<mapsto> the (data result))
                                    else variables st1);
                            st2 = st1\<lparr>action_results := rs, variables := vars,
                                      last_decision := Some decision\<rparr>
                        in if check_task_complete rs then Break st2 else Continue st2))))"

lemma loop_body_Continue_step:
  "loop_body orc wk st = Continue st' \<Longrightarrow> step_count st' = step_count st + 1"
  by (auto simp: loop_body_def Let_def split: if_splits option.splits)

lemma loop_body_Break_step:
  "loop_body orc wk st = Break st' \<Longrightarrow> step_count st' = step_count st + 1"
  by (auto simp: loop_body_def Let_def split: if_splits option.splits)

lemma loop_body_Raise_step:
  "loop_body orc wk st = Raise e st' \<Longrightarrow> step_count st' = step_count st + 1"
  by (auto simp: loop_body_def Let_def split: if_splits option.splits)

text \<open>
  The \<open>while step_count < self.max_steps\<close> loop. The first component of the result is the
  text of an exception that left the loop, if any; the state is the one the code after
  the loop, or the \<open>except\<close> handler, sees.
\<close>

function agent_loop :: "step_oracle \<Rightarrow> worker \<Rightarrow> int \<Rightarrow> agent_state \<Rightarrow> string option \<times> agent_state" where
  "agent_loop orc wk max_steps st =
     (if step_count st < max_steps then
        (case loop_body orc wk st of
           Continue st' \<Rightarrow> agent_loop orc wk max_steps st'
         | Break st' \<Rightarrow> (None, st')
         | Raise e st' \<Rightarrow> (Some e, st'))
      else (None, st))"
  by pat_completeness auto
termination
  by (relation "measure (\<lambda>(orc, wk, max_steps, st). nat (max_steps - step_count st))")
     (auto dest: loop_body_Continue_step)

declare agent_loop.simps [simp del]

text \<open>The dictionary returned by \<open>execute_task\<close>, together with the final task status.\<close>

record 'r agent_result =
  res_success :: bool
  res_error :: "string option"
  res_action_results :: "ActionResult list"
  res_reflection :: "'r option"
  res_step_count :: int
  res_variables :: "(string \<rightharpoonup> string) option"
  res_status :: TaskStatus

text \<open>
  \<open>execute_task\<close>: the loop starts from step 0 with no results and the variables of the
  initial context (empty when none is given); afterwards one reflection and the verdict.
  The \<open>except\<close> branch reports failure with the results collected so far.
\<close>

definition execute_task ::
  "step_oracle \<Rightarrow> worker \<Rightarrow> (ActionResult list \<Rightarrow> 'r) \<Rightarrow> int \<Rightarrow> (string \<rightharpoonup> string) \<Rightarrow> 'r agent_result" where
  "execute_task orc wk reflect max_steps initial_variables =
     (case agent_loop orc wk max_steps
             \<lparr> step_count = 0, action_results = [], variables = initial_variables,
               last_decision = None \<rparr> of
        (Some e, st) \<Rightarrow>
          \<lparr> res_success = False, res_error = Some e,
            res_action_results = action_results st, res_reflection = None,
            res_step_count = step_count st, res_variables = None, res_status = FAILED \<rparr>
      | (None, st) \<Rightarrow>
          (let reflection = reflect (action_results st);
               all_success = list_all success (action_results st)
           in \<lparr> res_success = all_success, res_error = None,
                res_action_results = action_results st, res_reflection = Some reflection,
                res_step_count = step_count st, res_variables = Some (variables st),
                res_status = (if all_success then COMPLETED else FAILED) \<rparr>))"

section \<open>WorkflowExecutor (core/workflow\_executor.py)\<close>

record WorkflowStep =
  ws_id :: string
  ws_name :: string
  ws_action :: Action
  ws_condition :: "string option"
  ws_on_error :: "string option"
  ws_retry_count :: int

record WorkflowDefinition =
  wf_steps :: "WorkflowStep list"
  wf_variables :: "string \<rightharpoonup> string"
  wf_on_complete :: "string option"
  wf_on_error :: "string option"

text \<open>
  The part of the \<open>Context\<close> object that conditions, the worker and the completion hook can
  see: the variable bag and \<open>context.action_results\<close>.
\<close>

record wf_context =
  ctx_variables :: "string \<rightharpoonup> string"
  ctx_action_results :: "ActionResult list"

text \<open>
  Collaborators: \<open>eval\<close> of a condition expression (raising or yielding the truth value of
  its result), the worker's \<open>execute_with_retry\<close> (an \<open>ActionResult\<close>, or an exception that
  reaches the executor), and \<open>exec\<close> of the completion hook (an optional exception and the
  context as the hook leaves it).
\<close>

type_synonym condition_eval = "string \<Rightarrow> wf_context \<Rightarrow> string + bool"

type_synonym retry_worker = "Action \<Rightarrow> int \<Rightarrow> wf_context \<Rightarrow> string + ActionResult"

type_synonym hook_exec = "string \<Rightarrow> wf_context \<Rightarrow> string option \<times> wf_context"

text \<open>\<open>_evaluate_condition\<close>: no condition (or an empty one) holds; a raising one does not.\<close>

definition evaluate_condition :: "condition_eval \<Rightarrow> string option \<Rightarrow> wf_context \<Rightarrow> bool" where
  "evaluate_condition ev condition ctx =
     (case condition of
        None \<Rightarrow> True
      | Some c \<Rightarrow> if c = [] then True
                  else (case ev c ctx of Inl e \<Rightarrow> False | Inr b \<Rightarrow> b))"

text \<open>\<open>_execute_step\<close>: at least one attempt.\<close>

definition execute_step :: "retry_worker \<Rightarrow> WorkflowStep \<Rightarrow> wf_context \<Rightarrow> string + ActionResult" where
  "execute_step wk step ctx =
     wk (ws_action step) (if ws_retry_count step > 0 then ws_retry_count step else 1) ctx"

text \<open>
  \<open>step.on_error or workflow.on_error\<close>: Python's \<open>or\<close> takes the workflow's policy when the
  step's is \<open>None\<close> or the empty string.
\<close>

definition error_strategy :: "WorkflowDefinition \<Rightarrow> WorkflowStep \<Rightarrow> string option" where
  "error_strategy workflow step =
     (case ws_on_error step of
        None \<Rightarrow> wf_on_error workflow
      | Some s \<Rightarrow> if s = [] then wf_on_error workflow else Some s)"

text \<open>
  The local state of \<open>execute_workflow\<close>: the context, the local result list, the ids of
  the executed steps, and whether the local list has become \<open>context.action_results\<close>
  (it does at the first executed step; before that the context holds its own list).
\<close>

record wf_state =
  wf_ctx :: wf_context
  wf_results :: "ActionResult list"
  executed_steps :: "string list"
  wf_shared :: bool

text \<open>
  The \<open>for step in workflow.steps\<close> loop. The first component is the text of an exception
  that left the loop (re-raised under the policy \<open>abort\<close>), if any.
\<close>

fun run_steps ::
  "condition_eval \<Rightarrow> retry_worker \<Rightarrow> WorkflowDefinition \<Rightarrow> WorkflowStep list \<Rightarrow> wf_state
     \<Rightarrow> string option \<times> wf_state" where
  "run_steps ev wk workflow [] st = (None, st)"
| "run_steps ev wk workflow (step # rest) st =
     (if \<not> evaluate_condition ev (ws_condition step) (wf_ctx st)
      then run_steps ev wk workflow rest st
      else (case execute_step wk step (wf_ctx st) of
              Inl e \<Rightarrow>
                (if error_strategy workflow step = Some ''abort'' then (Some e, st)
                 else run_steps ev wk workflow rest st)
            | Inr result \<Rightarrow>
                (let rs = wf_results st @ [result];
                     vars = (if success result \<and> truthy (data result)
                             then (ctx_variables (wf_ctx st))
                                    (''step_'' @ ws_id step @ ''_result'' \<mapsto> the (data result))
                             else ctx_variables (wf_ctx st));
                     st' = \<lparr> wf_ctx = \<lparr> ctx_variables = vars, ctx_action_results = rs \<rparr>,
                             wf_results = rs,
                             executed_steps = executed_steps st @ [ws_id step],
                             wf_shared = True \<rparr>
                 in if \<not> success result then
                      (if error_strategy workflow step = Some ''abort'' then (None, st')
                       else if error_strategy workflow step = Some ''skip''
                       then run_steps ev wk workflow rest st'
                       else run_steps ev wk workflow rest st')
                    else run_steps ev wk workflow rest st')))"

record workflow_result =
  wr_success :: bool
  wr_error :: "string option"
  wr_action_results :: "ActionResult list"
  wr_executed_steps :: "string list"
  wr_variables :: "(string \<rightharpoonup> string) option"
  wr_status :: TaskStatus

text \<open>
  \<open>execute_workflow\<close>. The initial context is given by its variables and its own result
  list (both empty when no context is passed); the workflow's variables are merged in.
  After the loop the completion hook runs, its exception swallowed; it works on the
  context, so what it does to \<open>context.action_results\<close> shows in the local list only when
  the two are the same object.
\<close>

definition execute_workflow ::
  "condition_eval \<Rightarrow> retry_worker \<Rightarrow> hook_exec \<Rightarrow> WorkflowDefinition \<Rightarrow> wf_context
     \<Rightarrow> workflow_result" where
  "execute_workflow ev wk hook workflow initial_context =
     (let st0 = \<lparr> wf_ctx = initial_context
                    \<lparr>ctx_variables := ctx_variables initial_context ++ wf_variables workflow\<rparr>,
                  wf_results = [], executed_steps = [], wf_shared = False \<rparr>
      in case run_steps ev wk workflow (wf_steps workflow) st0 of
           (Some e, st) \<Rightarrow>
             \<lparr> wr_success = False, wr_error = Some e, wr_action_results = wf_results st,
               wr_executed_steps = executed_steps st, wr_variables = None,
               wr_status = FAILED \<rparr>
         | (None, st) \<Rightarrow>
             (let ctx' = (case wf_on_complete workflow of
                            None \<Rightarrow> wf_ctx st
                          | Some h \<Rightarrow> if h = [] then wf_ctx st else snd (hook h (wf_ctx st)));
                  rs = (if wf_shared st then ctx_action_results ctx' else wf_results st);
                  all_success = list_all success rs
              in \<lparr> wr_success = all_success, wr_error = None, wr_action_results = rs,
                   wr_executed_steps = executed_steps st,
                   wr_variables = Some (ctx_variables ctx'),
                   wr_status = (if all_success then COMPLETED else FAILED) \<rparr>))"

text \<open>An oracle that never stops and never acts: every decision continues, and skips or carries no action.\<close>

definition idle_oracle :: "step_oracle \<Rightarrow> bool" where
  "idle_oracle orc = (\<forall>n. \<exists>d. orc n = Inr d \<and> should_continue d \<and> (should_skip d \<or> action d = None))"

text \<open>The state right after a failed step has been recorded: its result appended to the (now shared) result list, its id to the executed steps, the variables untouched.\<close>

definition after_failed_step :: "wf_state \<Rightarrow> WorkflowStep \<Rightarrow> ActionResult \<Rightarrow> wf_state" where
  "after_failed_step st step result =
     \<lparr> wf_ctx = \<lparr> ctx_variables = ctx_variables (wf_ctx st),
                   ctx_action_results = wf_results st @ [result] \<rparr>,
       wf_results = wf_results st @ [result],
       executed_steps = executed_steps st @ [ws_id step],
       wf_shared = True \<rparr>"

text \<open>The context the first condition is evaluated in: the initial one with the workflow's variables merged.\<close>

definition initial_wf_context :: "WorkflowDefinition \<Rightarrow> wf_context \<Rightarrow> wf_context" where
  "initial_wf_context workflow initial_context =
     initial_context\<lparr>ctx_variables := ctx_variables initial_context ++ wf_variables workflow\<rparr>"

section \<open>ToolRegistry (tools/registry.py)\<close>

text \<open>
  Strings are byte strings in UTF-8; the Chinese message fragments of the source are
  spelled out as their bytes. \<open>str.lower\<close> is a parameter of the model.
\<close>

definition tool_prefix :: string where
  "tool_prefix = [CHR 0xE5, CHR 0xB7, CHR 0xA5, CHR 0xE5, CHR 0x85, CHR 0xB7, CHR '' '', CHR 0x27]"

definition not_exist_suffix :: string where
  "not_exist_suffix = [CHR 0x27, CHR '' '', CHR 0xE4, CHR 0xB8, CHR 0x8D, CHR 0xE5, CHR 0xAD, CHR 0x98, CHR 0xE5, CHR 0x9C, CHR 0xA8]"

definition did_you_mean :: string where
  "did_you_mean = [CHR '' '', CHR 0xE6, CHR 0x82, CHR 0xA8, CHR 0xE6, CHR 0x98, CHR 0xAF, CHR 0xE5, CHR 0x90, CHR 0xA6, CHR 0xE6, CHR 0x83, CHR 0xB3, CHR 0xE4, CHR 0xBD, CHR 0xBF, CHR 0xE7, CHR 0x94, CHR 0xA8, CHR '':'', CHR '' '']"

definition available_prefix :: string where
  "available_prefix = [CHR '' '', CHR 0xE5, CHR 0x8F, CHR 0xAF, CHR 0xE7, CHR 0x94, CHR 0xA8, CHR 0xE5, CHR 0xB7, CHR 0xA5, CHR 0xE5, CHR 0x85, CHR 0xB7, CHR '':'', CHR '' '']"

definition none_text :: string where
  "none_text = [CHR 0xE6, CHR 0x97, CHR 0xA0]"

definition validation_failed :: string where
  "validation_failed = [CHR 0xE5, CHR 0x8F, CHR 0x82, CHR 0xE6, CHR 0x95, CHR 0xB0, CHR 0xE9, CHR 0xAA, CHR 0x8C, CHR 0xE8, CHR 0xAF, CHR 0x81, CHR 0xE5, CHR 0xA4, CHR 0xB1, CHR 0xE8, CHR 0xB4, CHR 0xA5]"

definition execution_failed :: string where
  "execution_failed = [CHR 0xE5, CHR 0xB7, CHR 0xA5, CHR 0xE5, CHR 0x85, CHR 0xB7, CHR 0xE6, CHR 0x89, CHR 0xA7, CHR 0xE8, CHR 0xA1, CHR 0x8C, CHR 0xE5, CHR 0xA4, CHR 0xB1, CHR 0xE8, CHR 0xB4, CHR 0xA5, CHR '':'', CHR '' '']"

text \<open>\<open>sep.join(xs)\<close>.\<close>

fun join :: "string \<Rightarrow> string list \<Rightarrow> string" where
  "join sep [] = []"
| "join sep [x] = x"
| "join sep (x # y # ys) = x @ sep @ join sep (y # ys)"

text \<open>Python's \<open>a in b\<close> on strings: \<open>a\<close> occurs in \<open>b\<close> as a contiguous piece.\<close>

fun str_in :: "string \<Rightarrow> string \<Rightarrow> bool" where
  "str_in a [] = (a = [])"
| "str_in a (c # cs) = (prefix a (c # cs) \<or> str_in a cs)"

text \<open>
  The result dictionaries of the tool boundary: \<open>success\<close>, optional \<open>data\<close> and \<open>error\<close>,
  \<open>message\<close>, and the \<open>available_tools\<close> entry that only the registry's diagnostic carries.
\<close>

record tool_result =
  tr_success :: bool
  tr_data :: "string option"
  tr_error :: "string option"
  tr_message :: string
  tr_available_tools :: "string list option"

text \<open>
  A registered tool: its name and its two methods, each of which may raise
  (\<open>Inl\<close>, the exception text).
\<close>

record Tool =
  tool_name :: string
  validate_args :: "(string \<times> string) list \<Rightarrow> string + bool"
  tool_execute :: "(string \<times> string) list \<Rightarrow> string + tool_result"

text \<open>
  The registry's \<open>_tools\<close> dictionary, in insertion order. \<open>register\<close> overwrites an existing
  entry in place and appends a new one.
\<close>

type_synonym registry = "(string \<times> Tool) list"

fun dict_set :: "'k \<Rightarrow> 'v \<Rightarrow> ('k \<times> 'v) list \<Rightarrow> ('k \<times> 'v) list" where
  "dict_set k v [] = [(k, v)]"
| "dict_set k v ((k', v') # kvs) = (if k' = k then (k, v) # kvs else (k', v') # dict_set k v kvs)"

definition register :: "Tool \<Rightarrow> registry \<Rightarrow> registry" where
  "register tool tools = dict_set (tool_name tool) tool tools"

definition registry_has :: "registry \<Rightarrow> string \<Rightarrow> bool" where
  "registry_has tools name = (map_of tools name \<noteq> None)"

text \<open>The comprehension that collects the similarly-named tools.\<close>

definition similar_tools :: "(string \<Rightarrow> string) \<Rightarrow> registry \<Rightarrow> string \<Rightarrow> string list" where
  "similar_tools lower tools name =
     filter (\<lambda>t. str_in (lower name) (lower t) \<or> str_in (lower t) (lower name)) (map fst tools)"

text \<open>
  \<open>ToolRegistry.execute\<close>. The result is a sum so that an exception leaving the method
  would show as \<open>Inl\<close>.
\<close>

definition registry_execute ::
  "(string \<Rightarrow> string) \<Rightarrow> registry \<Rightarrow> string \<Rightarrow> (string \<times> string) list \<Rightarrow> string + tool_result" where
  "registry_execute lower tools name args =
     (case map_of tools name of
        None \<Rightarrow>
          (let available_tools = map fst tools;
               available_tools_str = (if available_tools \<noteq> [] then join '', '' available_tools
                                      else none_text);
               similar = similar_tools lower tools name;
               error_msg = tool_prefix @ name @ not_exist_suffix;
               suggestion_msg =
                 (if similar \<noteq> [] then did_you_mean @ join '', '' similar @ ''?''
                  else if available_tools \<noteq> [] then available_prefix @ available_tools_str
                  else [])
           in Inr \<lparr> tr_success = False, tr_data = None,
                    tr_error = Some (''Tool '' @ [CHR 0x27] @ name @ [CHR 0x27] @ '' not found''),
                    tr_message = error_msg @ suggestion_msg,
                    tr_available_tools = Some available_tools \<rparr>)
      | Some tool \<Rightarrow>
          (case validate_args tool args of
             Inl e \<Rightarrow> Inr \<lparr> tr_success = False, tr_data = None, tr_error = Some e,
                            tr_message = execution_failed @ e, tr_available_tools = None \<rparr>
           | Inr ok \<Rightarrow>
               if \<not> ok then Inr \<lparr> tr_success = False, tr_data = None,
                                  tr_error = Some ''Invalid arguments'',
                                  tr_message = validation_failed, tr_available_tools = None \<rparr>
               else (case tool_execute tool args of
                       Inl e \<Rightarrow> Inr \<lparr> tr_success = False, tr_data = None, tr_error = Some e,
                                      tr_message = execution_failed @ e,
                                      tr_available_tools = None \<rparr>
                     | Inr result \<Rightarrow> Inr result)))"

section \<open>ProtocolClient (mcp/client.py)\<close>

text \<open>
  The child process, the SDK session and the server are outside the program. What the
  client does to them is recorded in a world state: how many child processes have been
  spawned, how many sessions opened, how many handshakes and discovery requests
  completed, and which resources have been closed. How they answer is an environment:
  \<open>shlex.split\<close>, the outcome of each spawn, of each handshake, and the responses to
  discovery and tool calls, where \<open>Inl\<close> or \<open>Some\<close> carries the text of a raised exception.
\<close>

datatype resource = StdioProcess nat | ClientSession nat

record mcp_world =
  spawned :: nat
  sessions_opened :: nat
  handshakes :: nat
  discoveries :: nat
  closed :: "resource list"

record wire_tool =
  wt_name :: string
  wt_description :: "string option"
  wt_inputSchema :: string

record tool_dict =
  td_name :: string
  td_description :: string
  td_inputSchema :: string

datatype content_item =
    TextContent string
  | ImageContent string string
  | OtherContent "string option" "(string \<times> string) list option"

record CallToolResult =
  content :: "content_item list"
  structuredContent :: "string option"
  isError :: bool

record mcp_env =
  shlex_split :: "string \<Rightarrow> string + string list"
  spawn_outcome :: "nat \<Rightarrow> string option"
  initialize_outcome :: "nat \<Rightarrow> string option"
  list_tools_response :: "nat \<Rightarrow> string + wire_tool list"
  call_tool_response :: "nat \<Rightarrow> string \<Rightarrow> (string \<times> string) list \<Rightarrow> string + CallToolResult"

record MCPClient =
  server_command :: "string option"
  transport :: string
  stdio_params :: "(string \<times> string list) option"
  exit_stack :: "resource list"
  session :: "nat option"
  streams :: "nat option"
  connected :: bool
  client_tools :: "tool_dict list"

text \<open>\<open>_cleanup\<close>: nothing when not connected; otherwise the exit stack is closed, newest
  resource first, and the session state reset.\<close>

definition cleanup :: "MCPClient \<Rightarrow> mcp_world \<Rightarrow> MCPClient \<times> mcp_world" where
  "cleanup c w =
     (if \<not> connected c then (c, w)
      else (c\<lparr>session := None, streams := None, connected := False, exit_stack := []\<rparr>,
            w\<lparr>closed := closed w @ exit_stack c\<rparr>))"

text \<open>\<open>list_tools\<close>: an empty list when not connected or when the request fails; otherwise
  the converted catalogue, which is also stored.\<close>

definition convert_tool :: "wire_tool \<Rightarrow> tool_dict" where
  "convert_tool t = \<lparr> td_name = wt_name t,
      td_description = (case wt_description t of None \<Rightarrow> [] | Some d \<Rightarrow> d),
      td_inputSchema = wt_inputSchema t \<rparr>"

definition list_tools :: "mcp_env \<Rightarrow> MCPClient \<Rightarrow> mcp_world \<Rightarrow> tool_dict list \<times> MCPClient \<times> mcp_world" where
  "list_tools env c w =
     (case session c of
        None \<Rightarrow> ([], c, w)
      | Some s \<Rightarrow>
          if \<not> connected c then ([], c, w)
          else (case list_tools_response env s of
                  Inl e \<Rightarrow> ([], c, w)
                | Inr ts \<Rightarrow> (map convert_tool ts, c\<lparr>client_tools := map convert_tool ts\<rparr>,
                             w\<lparr>discoveries := discoveries w + 1\<rparr>)))"

text \<open>
  \<open>connect\<close>. There are two early returns (no server command, a transport other than
  stdio); after them the connection sequence runs, whatever \<open>self.connected\<close> is: parse
  the command, spawn the child process, open a session, perform the handshake, set
  \<open>connected\<close>, discover the tools. Any exception on the way leads to \<open>_cleanup\<close> and the
  result \<open>False\<close>.
\<close>

definition connect :: "mcp_env \<Rightarrow> MCPClient \<Rightarrow> mcp_world \<Rightarrow> bool \<times> MCPClient \<times> mcp_world" where
  "connect env c w =
     (case server_command c of
        None \<Rightarrow> (False, c, w)
      | Some cmd \<Rightarrow>
          if cmd = [] then (False, c, w)
          else if transport c \<noteq> ''stdio'' then (False, c, w)
          else (case shlex_split env cmd of
                  Inl e \<Rightarrow> (False, cleanup c w)
                | Inr [] \<Rightarrow> (False, cleanup c w)
                | Inr (command # args) \<Rightarrow>
                    (let c1 = c\<lparr>stdio_params := Some (command, args)\<rparr>
                     in case spawn_outcome env (spawned w) of
                          Some e \<Rightarrow> (False, cleanup c1 w)
                        | None \<Rightarrow>
                            (let pid = spawned w;
                                 sid = sessions_opened w;
                                 w2 = w\<lparr>spawned := spawned w + 1,
                                        sessions_opened := sessions_opened w + 1\<rparr>;
                                 c2 = c1\<lparr>exit_stack := ClientSession sid # StdioProcess pid # exit_stack c1,
                                         streams := Some pid, session := Some sid\<rparr>
                             in case initialize_outcome env sid of
                                  Some e \<Rightarrow> (False, cleanup c2 w2)
                                | None \<Rightarrow>
                                    (let w3 = w2\<lparr>handshakes := handshakes w2 + 1\<rparr>;
                                         c3 = c2\<lparr>connected := True\<rparr>
                                     in case list_tools env c3 w3 of
                                          (ts, c4, w4) \<Rightarrow> (True, c4, w4))))))"

text \<open>Dictionary helpers for the converted content items.\<close>

definition dict_update :: "(string \<times> 'v) list \<Rightarrow> (string \<times> 'v) list \<Rightarrow> (string \<times> 'v) list" where
  "dict_update d new = foldl (\<lambda>acc (k, v). dict_set k v acc) d new"

definition convert_content :: "content_item \<Rightarrow> (string \<times> string) list" where
  "convert_content item =
     (case item of
        TextContent t \<Rightarrow> [(''type'', ''text''), (''text'', t)]
      | ImageContent d m \<Rightarrow> [(''type'', ''image''), (''data'', d), (''mimeType'', m)]
      | OtherContent ty dump \<Rightarrow>
          dict_update [(''type'', (case ty of None \<Rightarrow> ''unknown'' | Some t \<Rightarrow> t))]
                      (case dump of None \<Rightarrow> [] | Some kvs \<Rightarrow> kvs))"

text \<open>The text of the first \<open>TextContent\<close> item, if there is one.\<close>

fun first_text :: "content_item list \<Rightarrow> string option" where
  "first_text [] = None"
| "first_text (TextContent t # rest) = Some t"
| "first_text (other # rest) = first_text rest"

record result_dict =
  rd_content :: "(string \<times> string) list list option"
  rd_text :: "string option"
  rd_structuredContent :: "string option"
  rd_isError :: "bool option"
  rd_error :: "string option"

text \<open>
  \<open>call_tool\<close>. Not connected: \<open>RuntimeError\<close>. Otherwise the request is sent; an exception of
  the session (or of the conversion: the lookup of \<open>text\<close> in the first converted item) is
  logged and re-raised; a response is converted into a dictionary.
\<close>

definition call_tool ::
  "mcp_env \<Rightarrow> MCPClient \<Rightarrow> string \<Rightarrow> (string \<times> string) list option \<Rightarrow> string + result_dict" where
  "call_tool env c name arguments =
     (case session c of
        None \<Rightarrow> Inl ''MCP client not connected''
      | Some s \<Rightarrow>
          if \<not> connected c then Inl ''MCP client not connected''
          else (case call_tool_response env s name (case arguments of None \<Rightarrow> [] | Some a \<Rightarrow> a) of
                  Inl e \<Rightarrow> Inl e
                | Inr result \<Rightarrow>
                    (let content_list = map convert_content (content result);
                         with_content = (if content result \<noteq> [] then Some content_list else None);
                         text_lookup =
                           (if content result \<noteq> [] \<and> map_of (hd content_list) ''type'' = Some ''text''
                            then (case map_of (hd content_list) ''text'' of
                                    None \<Rightarrow> Inl ''KeyError''
                                  | Some t \<Rightarrow> Inr (Some t))
                            else Inr None)
                     in case text_lookup of
                          Inl e \<Rightarrow> Inl e
                        | Inr txt \<Rightarrow>
                            Inr \<lparr> rd_content = with_content,
                                  rd_text = txt,
                                  rd_structuredContent =
                                    (if truthy (structuredContent result)
                                     then structuredContent result else None),
                                  rd_isError = (if isError result then Some True else None),
                                  rd_error = (if isError result \<and> content result \<noteq> []
                                              then first_text (content result) else None) \<rparr>)))"

text \<open>
  The SDK parses content items by their \<open>type\<close> tag, so an item that is not a
  \<open>TextContent\<close> does not carry the tag \<open>text\<close>.
\<close>

fun not_text_tagged :: "content_item \<Rightarrow> bool" where
  "not_text_tagged (OtherContent ty dump) =
     (map_of (convert_content (OtherContent ty dump)) ''type'' \<noteq> Some ''text'')"
| "not_text_tagged item = True"

section \<open>Parsed JSON values\<close>

text \<open>
  What \<open>json.loads\<close> returns: null, booleans, numbers, strings, lists and dictionaries (in
  key order). The operations below are the ones the voting code applies to such values,
  with Python's dynamic typing written out: where Python raises \<open>TypeError\<close>,
  \<open>AttributeError\<close> or \<open>KeyError\<close> the model returns \<open>Inl\<close> with the exception's name.
\<close>

datatype json =
    JNull | JBool bool | JNum real | JStr string | JArr "json list" | JObj "(string \<times> json) list"

definition bind_err :: "string + 'a \<Rightarrow> ('a \<Rightarrow> string + 'b) \<Rightarrow> string + 'b" where
  "bind_err m f = (case m of Inl e \<Rightarrow> Inl e | Inr x \<Rightarrow> f x)"

lemma bind_err_Inr: "bind_err (Inr x) f = f x"
  by (simp add: bind_err_def)

lemma bind_err_Inl: "bind_err (Inl e) f = Inl e"
  by (simp add: bind_err_def)

text \<open>A loop that threads an accumulator and stops at the first exception.\<close>

fun fold_err :: "('a \<Rightarrow> 's \<Rightarrow> string + 's) \<Rightarrow> 'a list \<Rightarrow> 's \<Rightarrow> string + 's" where
  "fold_err f [] s = Inr s"
| "fold_err f (x # xs) s = (case f x s of Inl e \<Rightarrow> Inl e | Inr s' \<Rightarrow> fold_err f xs s')"

fun map_err :: "('a \<Rightarrow> string + 'b) \<Rightarrow> 'a list \<Rightarrow> string + 'b list" where
  "map_err f [] = Inr []"
| "map_err f (x # xs) =
     (case f x of Inl e \<Rightarrow> Inl e
      | Inr y \<Rightarrow> (case map_err f xs of Inl e \<Rightarrow> Inl e | Inr ys \<Rightarrow> Inr (y # ys)))"

text \<open>Truth value of a JSON value in a condition.\<close>

fun py_truthy :: "json \<Rightarrow> bool" where
  "py_truthy JNull = False"
| "py_truthy (JBool b) = b"
| "py_truthy (JNum x) = (x \<noteq> 0)"
| "py_truthy (JStr s) = (s \<noteq> [])"
| "py_truthy (JArr xs) = (xs \<noteq> [])"
| "py_truthy (JObj kvs) = (kvs \<noteq> [])"

text \<open>
  The characters of a string: a byte that is not a UTF-8 continuation byte starts a new
  one.
\<close>

definition is_continuation :: "char \<Rightarrow> bool" where
  "is_continuation c = (128 \<le> (of_char c :: nat) \<and> (of_char c :: nat) < 192)"

fun utf8_chars :: "string \<Rightarrow> string list" where
  "utf8_chars [] = []"
| "utf8_chars (c # cs) =
     (case utf8_chars cs of
        [] \<Rightarrow> [[c]]
      | g # gs \<Rightarrow> if is_continuation (hd g) then (c # g) # gs else [c] # g # gs)"

text \<open>\<open>for x in v\<close>: list elements, the characters of a string, the keys of a dictionary.\<close>

fun py_iter :: "json \<Rightarrow> string + json list" where
  "py_iter (JArr xs) = Inr xs"
| "py_iter (JStr s) = Inr (map JStr (utf8_chars s))"
| "py_iter (JObj kvs) = Inr (map (\<lambda>kv. JStr (fst kv)) kvs)"
| "py_iter v = Inl ''TypeError''"

text \<open>\<open>len(v)\<close>, defined for the same values.\<close>

definition py_len :: "json \<Rightarrow> string + nat" where
  "py_len v = (case py_iter v of Inl e \<Rightarrow> Inl e | Inr xs \<Rightarrow> Inr (length xs))"

text \<open>\<open>key in v\<close> for a string \<open>key\<close>.\<close>

fun py_contains :: "string \<Rightarrow> json \<Rightarrow> string + bool" where
  "py_contains key (JObj kvs) = Inr (key \<in> set (map fst kvs))"
| "py_contains key (JArr xs) = Inr (JStr key \<in> set xs)"
| "py_contains key (JStr s) = Inr (str_in key s)"
| "py_contains key v = Inl ''TypeError''"

text \<open>\<open>v[key]\<close> for a string \<open>key\<close>.\<close>

fun py_getitem :: "json \<Rightarrow> string \<Rightarrow> string + json" where
  "py_getitem (JObj kvs) key = (case map_of kvs key of None \<Rightarrow> Inl ''KeyError'' | Some v \<Rightarrow> Inr v)"
| "py_getitem v key = Inl ''TypeError''"

text \<open>\<open>v.get(key, [])\<close>: only dictionaries have the method.\<close>

fun py_get_list :: "json \<Rightarrow> string \<Rightarrow> string + json" where
  "py_get_list (JObj kvs) key = (case map_of kvs key of None \<Rightarrow> Inr (JArr []) | Some v \<Rightarrow> Inr v)"
| "py_get_list v key = Inl ''AttributeError''"

fun is_dict :: "json \<Rightarrow> bool" where
  "is_dict (JObj kvs) = True"
| "is_dict v = False"

text \<open>
  Set elements and dictionary keys must be hashable; as keys, \<open>True\<close> and \<open>1\<close>, \<open>False\<close> and
  \<open>0\<close> are the same.
\<close>

fun hashable :: "json \<Rightarrow> bool" where
  "hashable (JArr xs) = False"
| "hashable (JObj kvs) = False"
| "hashable v = True"

fun py_key :: "json \<Rightarrow> json" where
  "py_key (JBool b) = JNum (if b then 1 else 0)"
| "py_key v = v"

text \<open>Python's \<open>max(xs, key=f)\<close>: the first element with the largest key.\<close>

fun max_by :: "('a \<Rightarrow> 'b::linorder) \<Rightarrow> 'a list \<Rightarrow> 'a option" where
  "max_by f [] = None"
| "max_by f (x # xs) = Some (foldl (\<lambda>b y. if f b < f y then y else b) x xs)"

section \<open>SelfConsistencyGenerator (llm/self\_consistency.py)\<close>

datatype VotingStrategy = MAJORITY | WEIGHTED | CLUSTERING | QUALITY_BASED

record SampleResult =
  sr_content :: string
  parsed_data :: "json option"
  is_valid :: bool
  quality_score :: real
  parse_error :: "string option"

record ConsistencyResult =
  best_result :: json
  consistency_score :: real
  sample_count :: nat
  valid_sample_count :: nat
  voting_details :: "(string \<times> string) list"

record SelfConsistencyGenerator =
  num_samples :: int
  voting_strategy :: VotingStrategy
  early_stop_threshold :: real
  parallel :: bool

text \<open>Truth value of \<open>sample.parsed_data\<close>.\<close>

definition data_truthy :: "SampleResult \<Rightarrow> bool" where
  "data_truthy sample = (case parsed_data sample of None \<Rightarrow> False | Some d \<Rightarrow> py_truthy d)"

text \<open>
  The loop shared by the voting and the similarity code: over the subtasks that are
  dictionaries with \<open>actions\<close>, over their actions that are dictionaries with \<open>tool\<close>,
  collecting the tools in order of occurrence. Each tool is used as a set element or a
  dictionary key, which raises on a list or a dictionary.
\<close>

definition action_tools :: "json \<Rightarrow> json list \<Rightarrow> string + json list" where
  "action_tools subtask acc =
     (case subtask of
        JObj kvs \<Rightarrow>
          (case map_of kvs ''actions'' of
             None \<Rightarrow> Inr acc
           | Some acts \<Rightarrow>
               bind_err (py_iter acts)
                 (\<lambda>as. fold_err
                    (\<lambda>action acc'.
                       case action of
                         JObj akvs \<Rightarrow>
                           (case map_of akvs ''tool'' of
                              None \<Rightarrow> Inr acc'
                            | Some t \<Rightarrow> if hashable t then Inr (acc' @ [py_key t])
                                        else Inl ''TypeError'')
                       | _ \<Rightarrow> Inr acc')
                    as acc))
      | _ \<Rightarrow> Inr acc)"

definition collect_tools :: "json \<Rightarrow> string + json list" where
  "collect_tools subtasks = bind_err (py_iter subtasks) (\<lambda>sts. fold_err action_tools sts [])"

text \<open>\<open>_calculate_similarity\<close>: 0.3 for equally many subtasks, 0.7 times the overlap of the
  tool sets when both are non-empty, over the constant total 1.0.\<close>

definition calculate_similarity :: "json \<Rightarrow> json \<Rightarrow> string + real" where
  "calculate_similarity data1 data2 =
     (if \<not> py_truthy data1 \<or> \<not> py_truthy data2 then Inr 0
      else
        bind_err (py_get_list data1 ''subtasks'') (\<lambda>subtasks1.
        bind_err (py_get_list data2 ''subtasks'') (\<lambda>subtasks2.
        bind_err (py_len subtasks1) (\<lambda>n1.
        bind_err (py_len subtasks2) (\<lambda>n2.
        bind_err (collect_tools subtasks1) (\<lambda>tools1.
        bind_err (collect_tools subtasks2) (\<lambda>tools2.
          (let score0 = (if n1 = n2 then 3 / 10 else 0);
               intersection = length (remdups (filter (\<lambda>t. t \<in> set tools2) tools1));
               union = length (remdups (tools1 @ tools2));
               score1 = (if tools1 \<noteq> [] \<and> tools2 \<noteq> [] \<and> union > 0
                         then score0 + (7 / 10) * (real intersection / real union)
                         else score0);
               total = 3 / 10 + 7 / 10
           in Inr (if total > 0 then score1 / total else 0)))))))))"

text \<open>\<open>_calculate_quality_score\<close>.\<close>

definition calculate_quality_score :: "SampleResult \<Rightarrow> string + real" where
  "calculate_quality_score sample =
     (if \<not> is_valid sample then Inr 0
      else case parsed_data sample of
             None \<Rightarrow> Inr 1
           | Some d \<Rightarrow>
               if \<not> py_truthy d then Inr 1
               else bind_err (py_contains ''subtasks'' d) (\<lambda>has.
                      if \<not> has then Inr 1
                      else bind_err (py_getitem d ''subtasks'') (\<lambda>subs.
                             if \<not> py_truthy subs then Inr (1 * (5 / 10))
                             else bind_err (py_iter subs) (\<lambda>sts.
                                    fold_err
                                      (\<lambda>subtask score.
                                         (let score1 = (if is_dict subtask then score
                                                        else score * (8 / 10))
                                          in bind_err (py_contains ''actions'' subtask) (\<lambda>hasa.
                                               Inr (if \<not> hasa then score1 * (8 / 10) else score1))))
                                      sts 1))))"

text \<open>\<open>_calculate_consistency_score\<close>: the mean similarity of the samples to the winner.\<close>

definition calculate_consistency_score :: "SampleResult list \<Rightarrow> json \<Rightarrow> string + real" where
  "calculate_consistency_score parsed_samples best =
     (if parsed_samples = [] \<or> \<not> py_truthy best then Inr 0
      else bind_err
             (map_err (\<lambda>sample. calculate_similarity (the (parsed_data sample)) best)
                      (filter data_truthy parsed_samples))
             (\<lambda>similarities.
                if similarities = [] then Inr 0
                else Inr (sum_list similarities / real (length similarities))))"

text \<open>\<open>_calculate_preliminary_consistency\<close>: the mean similarity over all pairs \<open>i < j\<close>.\<close>

fun sample_pairs :: "'a list \<Rightarrow> ('a \<times> 'a) list" where
  "sample_pairs [] = []"
| "sample_pairs (x # xs) = map (Pair x) xs @ sample_pairs xs"

definition calculate_preliminary_consistency :: "SampleResult list \<Rightarrow> string + real" where
  "calculate_preliminary_consistency parsed_samples =
     (if length parsed_samples < 2 then Inr 0
      else bind_err
             (map_err (\<lambda>(a, b). calculate_similarity (the (parsed_data a)) (the (parsed_data b)))
                      (filter (\<lambda>(a, b). data_truthy a \<and> data_truthy b) (sample_pairs parsed_samples)))
             (\<lambda>similarities.
                if similarities = [] then Inr 0
                else Inr (sum_list similarities / real (length similarities))))"

text \<open>Lookup in an insertion-ordered dictionary, with a default.\<close>

definition dict_get :: "('k \<times> 'v) list \<Rightarrow> 'k \<Rightarrow> 'v \<Rightarrow> 'v" where
  "dict_get d k dflt = (case map_of d k of None \<Rightarrow> dflt | Some v \<Rightarrow> v)"

text \<open>\<open>_majority_vote\<close>, first loop: tool occurrences and subtask counts over all samples.\<close>

definition count_votes ::
  "SampleResult \<Rightarrow> (json \<times> nat) list \<times> (nat \<times> nat) list
     \<Rightarrow> string + (json \<times> nat) list \<times> (nat \<times> nat) list" where
  "count_votes sample st =
     (if \<not> data_truthy sample then Inr st
      else (let d = the (parsed_data sample); tool_votes = fst st; subtask_counts = snd st
            in bind_err (py_contains ''subtasks'' d) (\<lambda>has.
               bind_err (if has
                         then bind_err (py_getitem d ''subtasks'') (\<lambda>subs.
                              bind_err (collect_tools subs) (\<lambda>tools.
                                Inr (foldl (\<lambda>tv t. dict_set t (dict_get tv t 0 + 1) tv)
                                           tool_votes tools)))
                         else Inr tool_votes) (\<lambda>tool_votes'.
               bind_err (py_get_list d ''subtasks'') (\<lambda>sl.
               bind_err (py_len sl) (\<lambda>n.
                 Inr (tool_votes',
                      dict_set n (dict_get subtask_counts n 0 + 1) subtask_counts)))))))"

text \<open>Second loop: the score of a sample, and the first sample with the strictly best score.\<close>

definition majority_score :: "(json \<times> nat) list \<Rightarrow> nat \<Rightarrow> json \<Rightarrow> string + nat" where
  "majority_score tool_votes most_common d =
     bind_err (py_getitem d ''subtasks'') (\<lambda>subs.
     bind_err (py_len subs) (\<lambda>n.
     bind_err (collect_tools subs) (\<lambda>tools.
       Inr ((if n = most_common then 2 else 0)
            + sum_list (map (\<lambda>t. dict_get tool_votes t 0) tools)))))"

definition pick_best ::
  "(json \<times> nat) list \<Rightarrow> nat \<Rightarrow> SampleResult \<Rightarrow> SampleResult option \<times> nat
     \<Rightarrow> string + SampleResult option \<times> nat" where
  "pick_best tool_votes most_common sample st =
     (if \<not> data_truthy sample then Inr st
      else bind_err (py_contains ''subtasks'' (the (parsed_data sample))) (\<lambda>has.
             if \<not> has then Inr st
             else bind_err (majority_score tool_votes most_common (the (parsed_data sample)))
                    (\<lambda>score. Inr (if score > snd st then (Some sample, score) else st))))"

definition majority_vote :: "SampleResult list \<Rightarrow> string + json" where
  "majority_vote parsed_samples =
     bind_err (fold_err count_votes parsed_samples ([], [])) (\<lambda>(tool_votes, subtask_counts).
       (let most_common = (case max_by snd subtask_counts of None \<Rightarrow> 0 | Some (n, c) \<Rightarrow> n)
        in bind_err (fold_err (pick_best tool_votes most_common) parsed_samples (None, 0))
             (\<lambda>(best_sample, best_score).
                case best_sample of
                  Some b \<Rightarrow> Inr (the (parsed_data b))
                | None \<Rightarrow>
                    (case filter data_truthy parsed_samples of
                       [] \<Rightarrow> Inr (JObj [])
                     | smp # rest \<Rightarrow> Inr (the (parsed_data smp))))))"

text \<open>\<open>_weighted_vote\<close>: the first sample of highest quality among those with data.\<close>

definition weighted_vote :: "SampleResult list \<Rightarrow> string + json" where
  "weighted_vote parsed_samples =
     (case max_by quality_score (filter data_truthy parsed_samples) of
        None \<Rightarrow> Inr (JObj [])
      | Some b \<Rightarrow> Inr (the (parsed_data b)))"

text \<open>
  \<open>_clustering_vote\<close>: every unused sample with data opens a cluster and draws in the
  later unused samples whose similarity to it exceeds 0.7. The state is the list of
  clusters and the set of used indices.
\<close>

definition join_cluster ::
  "SampleResult list \<Rightarrow> nat \<Rightarrow> nat \<Rightarrow> SampleResult list \<times> nat list
     \<Rightarrow> string + SampleResult list \<times> nat list" where
  "join_cluster parsed_samples i j st =
     (if j \<in> set (snd st) \<or> \<not> data_truthy (parsed_samples ! j) then Inr st
      else bind_err (calculate_similarity (the (parsed_data (parsed_samples ! i)))
                                          (the (parsed_data (parsed_samples ! j))))
             (\<lambda>similarity. Inr (if similarity > 7 / 10
                                 then (fst st @ [parsed_samples ! j], snd st @ [j])
                                 else st)))"

definition open_cluster ::
  "SampleResult list \<Rightarrow> nat \<Rightarrow> SampleResult list list \<times> nat list
     \<Rightarrow> string + SampleResult list list \<times> nat list" where
  "open_cluster parsed_samples i st =
     (if i \<in> set (snd st) \<or> \<not> data_truthy (parsed_samples ! i) then Inr st
      else bind_err (fold_err (join_cluster parsed_samples i) [Suc i ..< length parsed_samples]
                       ([parsed_samples ! i], snd st @ [i]))
             (\<lambda>(cluster, used). Inr (fst st @ [cluster], used)))"

definition clustering_vote :: "SampleResult list \<Rightarrow> string + json" where
  "clustering_vote parsed_samples =
     bind_err (fold_err (open_cluster parsed_samples) [0 ..< length parsed_samples] ([], []))
       (\<lambda>(clusters, used).
          case max_by length clusters of
            None \<Rightarrow> Inr (JObj [])
          | Some largest \<Rightarrow>
              (case max_by quality_score largest of
                 None \<Rightarrow> Inr (JObj [])
               | Some b \<Rightarrow> Inr (the (parsed_data b))))"

text \<open>
  \<open>_quality_based_vote\<close>: samples with equal \<open>json.dumps(..., sort_keys=True)\<close> text form a
  group; a group scores 0.4 times its share of the samples plus 0.6 times its mean
  quality. \<open>json.dumps\<close> is a parameter.
\<close>

definition quality_based_vote :: "(json \<Rightarrow> string) \<Rightarrow> SampleResult list \<Rightarrow> string + json" where
  "quality_based_vote dumps parsed_samples =
     (let sample_counts =
            foldl (\<lambda>groups sample.
                     (let key = dumps (the (parsed_data sample))
                      in dict_set key (dict_get groups key [] @ [sample]) groups))
                  [] (filter data_truthy parsed_samples);
          scored_results =
            map (\<lambda>(key, samples).
                   (the (parsed_data (hd samples)),
                    (real (length samples) / real (length parsed_samples)) * (4 / 10)
                    + (sum_list (map quality_score samples) / real (length samples)) * (6 / 10)))
                sample_counts
      in case max_by snd scored_results of
           None \<Rightarrow> Inr (JObj [])
         | Some (best_data, best_score) \<Rightarrow> Inr best_data)"

definition vote :: "VotingStrategy \<Rightarrow> (json \<Rightarrow> string) \<Rightarrow> SampleResult list \<Rightarrow> string + json" where
  "vote strat dumps parsed_samples =
     (case strat of
        MAJORITY \<Rightarrow> majority_vote parsed_samples
      | WEIGHTED \<Rightarrow> weighted_vote parsed_samples
      | CLUSTERING \<Rightarrow> clustering_vote parsed_samples
      | QUALITY_BASED \<Rightarrow> quality_based_vote dumps parsed_samples)"

text \<open>
  \<open>_extract_json\<close>: the body of a fenced block if one is closed, else the stretch from the
  first opening brace to the last closing brace, else the stripped text.
\<close>

definition is_space :: "char \<Rightarrow> bool" where
  "is_space c = (c \<in> set [CHR '' '', CHR 0x09, CHR 0x0A, CHR 0x0B, CHR 0x0C, CHR 0x0D,
                           CHR 0x1C, CHR 0x1D, CHR 0x1E, CHR 0x1F])"

definition py_strip :: "string \<Rightarrow> string" where
  "py_strip s = rev (dropWhile is_space (rev (dropWhile is_space s)))"

fun py_find :: "string \<Rightarrow> string \<Rightarrow> nat option" where
  "py_find sub [] = (if sub = [] then Some 0 else None)"
| "py_find sub (c # cs) =
     (if prefix sub (c # cs) then Some 0 else map_option Suc (py_find sub cs))"

definition py_find_from :: "string \<Rightarrow> string \<Rightarrow> nat \<Rightarrow> nat option" where
  "py_find_from sub s start =
     (if start > length s then None else map_option (\<lambda>i. i + start) (py_find sub (drop start s)))"

definition py_slice :: "string \<Rightarrow> nat \<Rightarrow> nat \<Rightarrow> string" where
  "py_slice s start end = take (end - start) (drop start s)"

definition fenced_body :: "string \<Rightarrow> string \<Rightarrow> string option" where
  "fenced_body fence text =
     (case py_find fence text of
        None \<Rightarrow> None
      | Some i \<Rightarrow>
          (case py_find_from ''```'' text (i + length fence) of
             None \<Rightarrow> None
           | Some e \<Rightarrow> Some (py_strip (py_slice text (i + length fence) e))))"

definition brace_search :: "string \<Rightarrow> string option" where
  "brace_search text =
     (case dropWhile (\<lambda>c. c \<noteq> CHR ''{'') text of
        [] \<Rightarrow> None
      | b # rest \<Rightarrow> if CHR ''}'' \<in> set rest
                    then Some (b # rev (dropWhile (\<lambda>c. c \<noteq> CHR ''}'') (rev rest)))
                    else None)"

definition extract_json :: "string \<Rightarrow> string" where
  "extract_json text0 =
     (let text = py_strip text0;
          fenced = (if str_in ''```json'' text then fenced_body ''```json'' text
                    else if str_in ''```'' text then fenced_body ''```'' text
                    else None)
      in case fenced of
           Some body \<Rightarrow> body
         | None \<Rightarrow> (case brace_search text of Some m \<Rightarrow> m | None \<Rightarrow> text))"

text \<open>
  \<open>_parse_sample\<close>: the caller's parser if there is one, else extraction followed by
  \<open>json.loads\<close> (a parameter); any exception of either makes the sample invalid.
\<close>

definition parse_text ::
  "(string \<Rightarrow> string + json) \<Rightarrow> (string \<Rightarrow> string + json) option \<Rightarrow> string \<Rightarrow> string + json" where
  "parse_text json_loads parse_fn text =
     (case parse_fn of Some f \<Rightarrow> f text | None \<Rightarrow> json_loads (extract_json text))"

definition parse_sample ::
  "(string \<Rightarrow> string + json) \<Rightarrow> (string \<Rightarrow> string + json) option \<Rightarrow> string \<Rightarrow> SampleResult" where
  "parse_sample json_loads parse_fn text =
     (case parse_text json_loads parse_fn text of
        Inr d \<Rightarrow> \<lparr> sr_content = text, parsed_data = Some d, is_valid = True,
                   quality_score = 0, parse_error = None \<rparr>
      | Inl e \<Rightarrow> \<lparr> sr_content = text, parsed_data = None, is_valid = False,
                   quality_score = 0, parse_error = Some e \<rparr>)"

text \<open>
  \<open>_sample_multiple\<close>. The oracle's answer to the \<open>i\<close>-th call is \<open>generate i\<close>, \<open>Inl\<close> when the
  call raises. In parallel mode all calls are made and the failed ones dropped. In serial
  mode a failed call raises, and from the third sample on the loop stops early once the
  preliminary consistency of the valid samples reaches the threshold.
\<close>

fun serial_sampling ::
  "(string \<Rightarrow> string + json) \<Rightarrow> real \<Rightarrow> (nat \<Rightarrow> string + string) \<Rightarrow> nat list \<Rightarrow> string list
     \<Rightarrow> string + string list" where
  "serial_sampling json_loads threshold generate [] samples = Inr samples"
| "serial_sampling json_loads threshold generate (i # is) samples =
     (case generate i of
        Inl e \<Rightarrow> Inl e
      | Inr sample \<Rightarrow>
          (let samples' = samples @ [sample]
           in if i \<ge> 2 then
                (let valid_samples = filter is_valid (map (parse_sample json_loads None) samples')
                 in if valid_samples \<noteq> [] then
                      (case calculate_preliminary_consistency valid_samples of
                         Inl e \<Rightarrow> Inl e
                       | Inr consistency \<Rightarrow>
                           if consistency \<ge> threshold then Inr samples'
                           else serial_sampling json_loads threshold generate is samples')
                    else serial_sampling json_loads threshold generate is samples')
              else serial_sampling json_loads threshold generate is samples'))"

definition sample_multiple ::
  "SelfConsistencyGenerator \<Rightarrow> (string \<Rightarrow> string + json) \<Rightarrow> (nat \<Rightarrow> string + string)
     \<Rightarrow> string + string list" where
  "sample_multiple gen json_loads generate =
     (if parallel gen
      then Inr (concat (map (\<lambda>i. case generate i of Inl e \<Rightarrow> [] | Inr sample \<Rightarrow> [sample])
                            [0 ..< nat (num_samples gen)]))
      else serial_sampling json_loads (early_stop_threshold gen) generate
             [0 ..< nat (num_samples gen)] [])"

text \<open>
  Steps 2 to 5 of \<open>generate_with_voting\<close>, on the sampled texts: parse, keep the samples
  that parsed (re-marked by the validator, if any), return the empty result when none is
  left, otherwise score, vote and measure the consistency.
\<close>

definition keep_parsed ::
  "(string \<Rightarrow> string + json) \<Rightarrow> (string \<Rightarrow> string + json) option
     \<Rightarrow> (json \<Rightarrow> string + bool) option \<Rightarrow> string \<Rightarrow> SampleResult list
     \<Rightarrow> string + SampleResult list" where
  "keep_parsed json_loads parse_fn validate_fn sample parsed_samples =
     (let parsed = parse_sample json_loads parse_fn sample
      in if is_valid parsed then
           (case validate_fn of
              None \<Rightarrow> Inr (parsed_samples @ [parsed])
            | Some validate \<Rightarrow>
                bind_err (validate (the (parsed_data parsed)))
                  (\<lambda>ok. Inr (parsed_samples @ [parsed\<lparr>is_valid := ok, quality_score := 0\<rparr>])))
         else Inr parsed_samples)"

definition vote_on_samples ::
  "SelfConsistencyGenerator \<Rightarrow> (string \<Rightarrow> string + json) \<Rightarrow> (json \<Rightarrow> string)
     \<Rightarrow> (string \<Rightarrow> string + json) option \<Rightarrow> (json \<Rightarrow> string + bool) option
     \<Rightarrow> string list \<Rightarrow> string + ConsistencyResult" where
  "vote_on_samples gen json_loads dumps parse_fn validate_fn samples =
     bind_err (fold_err (keep_parsed json_loads parse_fn validate_fn) samples []) (\<lambda>parsed_samples.
       if parsed_samples = [] then
         Inr \<lparr> best_result = JObj [], consistency_score = 0, sample_count = length samples,
               valid_sample_count = 0,
               voting_details = [(''error'', ''All samples failed to parse'')] \<rparr>
       else
         bind_err (map_err (\<lambda>p. bind_err (calculate_quality_score p)
                                   (\<lambda>q. Inr (p\<lparr>quality_score := q\<rparr>))) parsed_samples)
           (\<lambda>scored.
         bind_err (vote (voting_strategy gen) dumps scored) (\<lambda>best.
         bind_err (calculate_consistency_score scored best) (\<lambda>consistency.
           Inr \<lparr> best_result = best, consistency_score = consistency,
                 sample_count = length samples, valid_sample_count = length scored,
                 voting_details = [] \<rparr>))))"

definition generate_with_voting ::
  "SelfConsistencyGenerator \<Rightarrow> (string \<Rightarrow> string + json) \<Rightarrow> (json \<Rightarrow> string)
     \<Rightarrow> (nat \<Rightarrow> string + string)
     \<Rightarrow> (string \<Rightarrow> string + json) option \<Rightarrow> (json \<Rightarrow> string + bool) option
     \<Rightarrow> string + ConsistencyResult" where
  "generate_with_voting gen json_loads dumps generate parse_fn validate_fn =
     bind_err (sample_multiple gen json_loads generate)
       (vote_on_samples gen json_loads dumps parse_fn validate_fn)"

section \<open>Planner: parsing the plan response (core/planner.py)\<close>









































section \<open>Example inputs\<close>

text \<open>Concrete decisions, results and workflows used to exercise the theorems below.\<close>

definition stop_decision :: StepDecision where
  "stop_decision = \<lparr> action = None, should_continue = False, sd_should_retry = False,
      should_skip = False, reasoning = ''done'', sd_confidence = Some 1 \<rparr>"

definition idle_decision :: StepDecision where
  "idle_decision = \<lparr> action = None, should_continue = True, sd_should_retry = False,
      should_skip = False, reasoning = ''thinking'', sd_confidence = Some (1 / 2) \<rparr>"

definition click_action :: Action where
  "click_action = \<lparr> a_type = GUI, a_tool = ''click'', a_args = [(''target'', ''#go'')],
      a_description = ''click the button'' \<rparr>"

definition unformattable_decision :: StepDecision where
  "unformattable_decision = \<lparr> action = Some click_action, should_continue = True,
      sd_should_retry = False, should_skip = False, reasoning = ''go'', sd_confidence = None \<rparr>"

definition ok_result :: ActionResult where
  "ok_result = \<lparr> action_id = ''gui_click_0'', success = True, data = Some ''ok'', error = None,
      message = ''done'' \<rparr>"

definition failed_result :: ActionResult where
  "failed_result = \<lparr> action_id = ''gui_click_0'', success = False, data = None,
      error = Some ''boom'', message = ''failed'' \<rparr>"

definition names_step :: "string \<Rightarrow> string option \<Rightarrow> WorkflowStep" where
  "names_step i pol = \<lparr> ws_id = i, ws_name = i, ws_action = click_action, ws_condition = None,
      ws_on_error = pol, ws_retry_count = 0 \<rparr>"

definition two_step_workflow :: "string option \<Rightarrow> string option \<Rightarrow> WorkflowDefinition" where
  "two_step_workflow pol global =
     \<lparr> wf_steps = [names_step ''s1'' pol, names_step ''s2'' None], wf_variables = Map.empty,
       wf_on_complete = None, wf_on_error = global \<rparr>"

definition empty_state :: wf_state where
  "empty_state = \<lparr> wf_ctx = \<lparr> ctx_variables = Map.empty, ctx_action_results = [] \<rparr>,
      wf_results = [], executed_steps = [], wf_shared = False \<rparr>"

definition guarded_workflow :: WorkflowDefinition where
  "guarded_workflow =
     \<lparr> wf_steps = [(names_step ''s1'' None)\<lparr>ws_condition := Some ''False''\<rparr>,
                   (names_step ''s2'' (Some ''abort''))\<lparr>ws_condition := Some ''len(action_results) > 0''\<rparr>],
       wf_variables = Map.empty, wf_on_complete = None, wf_on_error = None \<rparr>"

text \<open>Case folding of the ASCII letters, for the examples.\<close>

definition ascii_lower_char :: "char \<Rightarrow> char" where
  "ascii_lower_char c =
     (case map_of (zip ''ABCDEFGHIJKLMNOPQRSTUVWXYZ'' ''abcdefghijklmnopqrstuvwxyz'') c of
        None \<Rightarrow> c
      | Some l \<Rightarrow> l)"

definition ascii_lower :: "string \<Rightarrow> string" where
  "ascii_lower s = map ascii_lower_char s"

definition plain_tool :: "string \<Rightarrow> Tool" where
  "plain_tool n = \<lparr> tool_name = n, validate_args = (\<lambda>args. Inr True),
      tool_execute = (\<lambda>args. Inr \<lparr> tr_success = True, tr_data = Some ''ok'', tr_error = None,
                                    tr_message = ''done'', tr_available_tools = None \<rparr>) \<rparr>"

definition sample_registry :: registry where
  "sample_registry = register (plain_tool ''scroll'')
      (register (plain_tool ''click'') (register (plain_tool ''navigate'') []))"

definition friendly_env :: mcp_env where
  "friendly_env = \<lparr> shlex_split = (\<lambda>s. Inr [s]), spawn_outcome = (\<lambda>n. None),
      initialize_outcome = (\<lambda>n. None),
      list_tools_response = (\<lambda>s. Inr [\<lparr> wt_name = ''read_file'', wt_description = None,
                                            wt_inputSchema = ''{}'' \<rparr>]),
      call_tool_response = (\<lambda>s name args.
         if name = ''read_file'' then Inr \<lparr> content = [TextContent ''hello''],
                                             structuredContent = None, isError = False \<rparr>
         else if name = ''crash'' then Inl ''BrokenPipeError''
         else Inr \<lparr> content = [TextContent ''Unknown tool''], structuredContent = None,
                     isError = True \<rparr>) \<rparr>"

definition fresh_client :: MCPClient where
  "fresh_client = \<lparr> server_command = Some ''server'', transport = ''stdio'', stdio_params = None,
      exit_stack = [], session = None, streams = None, connected = False, client_tools = [] \<rparr>"

definition fresh_world :: mcp_world where
  "fresh_world = \<lparr> spawned = 0, sessions_opened = 0, handshakes = 0, discoveries = 0, closed = [] \<rparr>"

definition connected_once :: "bool \<times> MCPClient \<times> mcp_world" where
  "connected_once = connect friendly_env fresh_client fresh_world"

definition idle_plan :: json where
  "idle_plan = JObj [(''subtasks'', JArr [JObj [(''id'', JStr ''subtask_1''),
       (''description'', JStr ''think about it''), (''actions'', JArr [])]])]"

definition default_generator :: SelfConsistencyGenerator where
  "default_generator = \<lparr> num_samples = 5, voting_strategy = MAJORITY,
      early_stop_threshold = 9 / 10, parallel = True \<rparr>"

definition idle_text :: string where
  "idle_text = ''{\"subtasks\": [{\"id\": \"subtask_1\", \"description\": \"think about it\", \"actions\": []}]}''"

definition tool_text :: string where
  "tool_text = ''```json {\"subtasks\": [{\"actions\": [{\"tool\": \"navigate\"}]}]} ```''"

definition navigate_plan :: json where
  "navigate_plan = JObj [(''subtasks'', JArr [JObj [(''actions'', JArr [JObj [(''tool'', JStr ''navigate'')]])]])]"

text \<open>A stand-in for \<open>json.loads\<close> that knows the two sample texts and rejects everything else.\<close>

definition sample_loads :: "string \<Rightarrow> string + json" where
  "sample_loads t =
     (if t = idle_text then Inr idle_plan
      else if t = ''{\"subtasks\": [{\"actions\": [{\"tool\": \"navigate\"}]}]}''
      then Inr navigate_plan
      else Inl ''Expecting value'')"

definition no_dumps :: "json \<Rightarrow> string" where
  "no_dumps j = []"


section \<open>Properties of the ErrorHandler\<close>

lemma py_pow2_powi: "py_pow2 n = 2 powi n"
  by (simp add: py_pow2_def power_int_def field_simps)

lemma adjusted_base_rate_bounds: "0 \<le> adjusted_base_rate et strat \<and> adjusted_base_rate et strat \<le> 1"
  by (cases strat) (simp_all add: adjusted_base_rate_def)

lemma calculate_confidence_eq:
  "calculate_confidence ctx strat =
     adjusted_base_rate (error_type ctx) strat * (if retry_count ctx > 0 then 9 / 10 else 1)"
proof -
  have b: "0 \<le> adjusted_base_rate (error_type ctx) strat"
          "adjusted_base_rate (error_type ctx) strat \<le> 1"
    using adjusted_base_rate_bounds by auto
  have pre: "calculate_confidence ctx strat =
     min 1 (max 0 (adjusted_base_rate (error_type ctx) strat *
                   (if retry_count ctx > 0 then 9 / 10 else 1)))"
    by (simp add: calculate_confidence_def adjusted_base_rate_def Let_def)
  show ?thesis
  proof (cases "retry_count ctx > 0")
    case True
    have "adjusted_base_rate (error_type ctx) strat * (9 / 10) \<le> 1" using b by simp
    moreover have "0 \<le> adjusted_base_rate (error_type ctx) strat * (9 / 10)" using b by simp
    ultimately show ?thesis using True pre by simp
  next
    case False
    then show ?thesis using pre b by simp
  qed
qed

text \<open>
  Below the overflow threshold the delay is the capped exponential, and without backoff
  it is the base delay.
\<close>

lemma get_retry_delay_in_range:
  "retry_count ctx < 1024 \<Longrightarrow>
     get_retry_delay ctx b True = Inr (min (b * 2 powi (retry_count ctx)) 60)"
  "get_retry_delay ctx b False = Inr b"
  by (simp_all add: get_retry_delay_def py_pow2_powi)

text \<open>
  C9. The claim that the delay is \<open>min (b * 2^n) 60\<close> for every retry count \<open>n\<close> is what the
  code's own comment promises (the delay is capped at 60 seconds), but the code does not
  deliver it: at \<open>n = 1024\<close> the call raises \<open>OverflowError\<close> instead of returning the cap,
  for every base delay. At \<open>n = 1023\<close> it still returns 60, and the two values of the
  spec hold: 8 for \<open>b = 1, n = 3\<close> and 60 for \<open>b = 1, n = 10\<close>.
\<close>

theorem get_retry_delay_overflow:
  "get_retry_delay (ctx\<lparr>retry_count := 1024\<rparr>) b True = Inl ''OverflowError''
   \<and> get_retry_delay (ctx\<lparr>retry_count := 1023\<rparr>) 1 True = Inr 60
   \<and> get_retry_delay (ctx\<lparr>retry_count := 3\<rparr>) 1 True = Inr 8
   \<and> get_retry_delay (ctx\<lparr>retry_count := 10\<rparr>) 1 True = Inr 60"
proof -
  have "(60::real) \<le> 2 ^ 6" by simp
  also have "\<dots> \<le> 2 ^ 1023" by (rule power_increasing) simp_all
  finally have big: "(60::real) \<le> 2 ^ 1023" .
  have "get_retry_delay (ctx\<lparr>retry_count := 1023\<rparr>) 1 True = Inr (min (2 ^ 1023) 60)"
    by (simp add: get_retry_delay_def py_pow2_def)
  then have a: "get_retry_delay (ctx\<lparr>retry_count := 1023\<rparr>) 1 True = Inr 60"
    using big by (simp add: min_def)
  show ?thesis
    using a by (simp add: get_retry_delay_def py_pow2_def)
qed

text \<open>
  C3 as stated fails: after two prior retries of a timeout (budget 5, so the strategy is
  still \<open>RETRY\<close>) the reported confidence is \<open>0.8 * 0.9 = 0.72\<close>, not
  \<open>0.8 * 0.9^2 = 0.648\<close>.
\<close>

theorem confidence_decay_per_retry_counterexample:
  "confidence (get_recovery_strategy
      \<lparr> error_type = TIMEOUT, error_message = ''timed out'', retry_count = 2 \<rparr> 5 1)
   \<noteq> adjusted_base_rate TIMEOUT RETRY * (9 / 10) ^ 2
   \<and> confidence (get_recovery_strategy
      \<lparr> error_type = TIMEOUT, error_message = ''timed out'', retry_count = 2 \<rparr> 5 1)
   = 72 / 100"
  by (simp add: get_recovery_strategy_def calculate_confidence_def adjusted_base_rate_def
      Let_def power2_eq_square)

text \<open>
  C3 as amended. The confidence reported by \<open>get_recovery_strategy\<close> is the base rate of the
  chosen strategy after the category adjustment, multiplied by 0.9 exactly once when the
  retry count is positive and left as it is when the retry count is zero (or negative);
  the number of prior retries beyond the first does not lower it further.
\<close>

theorem confidence_single_decay:
  "confidence (get_recovery_strategy ctx mr rd) =
     adjusted_base_rate (error_type ctx) (strategy (get_recovery_strategy ctx mr rd))
       * (if retry_count ctx > 0 then 9 / 10 else 1)"
  by (simp add: get_recovery_strategy_def Let_def calculate_confidence_eq)

section \<open>Properties of the AgentExecutor\<close>

lemma agent_loop_step_bound:
  "step_count (snd (agent_loop orc wk m st)) \<le> max (step_count st) m"
proof (induction orc wk m st rule: agent_loop.induct)
  case (1 orc wk max_steps st)
  show ?case
  proof (cases "step_count st < max_steps")
    case False
    then show ?thesis by (simp add: agent_loop.simps)
  next
    case True
    show ?thesis
    proof (cases "loop_body orc wk st")
      case (Continue st')
      then show ?thesis using True 1[OF True Continue] loop_body_Continue_step[OF Continue]
        by (simp add: agent_loop.simps[of orc wk max_steps st])
    next
      case (Break st')
      then show ?thesis using True loop_body_Break_step[OF Break]
        by (simp add: agent_loop.simps[of orc wk max_steps st])
    next
      case (Raise e st')
      then show ?thesis using True loop_body_Raise_step[OF Raise]
        by (simp add: agent_loop.simps[of orc wk max_steps st])
    qed
  qed
qed

lemma loop_body_idle:
  assumes "idle_oracle orc" "action_results st = []"
  shows "\<exists>st'. loop_body orc wk st = Continue st' \<and> action_results st' = []"
proof -
  obtain d where d: "orc (step_count st + 1) = Inr d" "should_continue d" "should_skip d \<or> action d = None"
    using assms(1) unfolding idle_oracle_def by blast
  have dn: "decide_next_step orc (step_count st + 1) = d" using d by (simp add: decide_next_step_def)
  show ?thesis using d dn assms(2)
    by (auto simp: loop_body_def Let_def check_task_complete_def)
qed

lemma agent_loop_idle:
  "idle_oracle orc \<Longrightarrow> action_results st = [] \<Longrightarrow>
   fst (agent_loop orc wk m st) = None \<and>
   step_count (snd (agent_loop orc wk m st)) = max (step_count st) m \<and>
   action_results (snd (agent_loop orc wk m st)) = []"
proof (induction orc wk m st rule: agent_loop.induct)
  case (1 orc wk max_steps st)
  show ?case
  proof (cases "step_count st < max_steps")
    case False
    then show ?thesis using 1(3) by (simp add: agent_loop.simps)
  next
    case True
    obtain st' where b: "loop_body orc wk st = Continue st'" "action_results st' = []"
      using loop_body_idle[OF 1(2) 1(3)] by blast
    show ?thesis
      using True b 1(1)[OF True b(1) 1(2) b(2)] loop_body_Continue_step[OF b(1)]
      by (simp add: agent_loop.simps[of orc wk max_steps st])
  qed
qed

lemma agent_first_stop:
  assumes "0 < max_steps" "\<not> should_continue (decide_next_step orc 1)"
  shows "agent_loop orc wk max_steps \<lparr> step_count = 0, action_results = [], variables = vars, last_decision = None \<rparr>
         = (None, \<lparr> step_count = 1, action_results = [], variables = vars, last_decision = None \<rparr>)"
  using assms
  by (simp add: agent_loop.simps[of _ _ _ "\<lparr> step_count = 0, action_results = [], variables = vars, last_decision = None \<rparr>"]
       loop_body_def Let_def)

text \<open>
  C2. Whatever the oracle decides and the worker returns, \<open>execute_task\<close> returns (the loop
  is a total function) after at most \<open>max_steps\<close> iterations, the iteration count being the
  reported \<open>step_count\<close>. An oracle whose every decision continues without an action (or
  with \<open>should_skip\<close>) drives the loop to exactly \<open>max_steps\<close> iterations, after which it
  ends normally. The default \<open>max_steps\<close> is 50.
\<close>

theorem execute_task_bounded:
  "res_step_count (execute_task orc wk reflect max_steps vars) \<le> max 0 max_steps
   \<and> (idle_oracle orc \<longrightarrow>
        res_step_count (execute_task orc wk reflect max_steps vars) = max 0 max_steps
        \<and> res_error (execute_task orc wk reflect max_steps vars) = None)"
proof -
  let ?st0 = "\<lparr> step_count = 0, action_results = [], variables = vars, last_decision = None \<rparr>"
  obtain e st where r: "agent_loop orc wk max_steps ?st0 = (e, st)" by (cases "agent_loop orc wk max_steps ?st0")
  have sc: "res_step_count (execute_task orc wk reflect max_steps vars) = step_count st"
    using r by (cases e) (simp_all add: execute_task_def Let_def)
  have er: "res_error (execute_task orc wk reflect max_steps vars) = e"
    using r by (cases e) (simp_all add: execute_task_def Let_def)
  have b: "step_count st \<le> max 0 max_steps"
    using agent_loop_step_bound[of orc wk max_steps ?st0] r by simp
  have i: "idle_oracle orc \<Longrightarrow> step_count st = max 0 max_steps \<and> e = None"
    using agent_loop_idle[of orc ?st0 wk max_steps] r by simp
  show ?thesis using sc er b i by simp
qed

theorem execute_task_bounded_witness:
  "res_step_count (execute_task (\<lambda>n. Inr idle_decision) (\<lambda>n a. ok_result) length 50 Map.empty) = 50"
  using execute_task_bounded[of "\<lambda>n. Inr idle_decision" "\<lambda>n a. ok_result" length 50 Map.empty]
  by (simp add: idle_oracle_def idle_decision_def)

section \<open>Properties of the WorkflowExecutor\<close>

lemma run_steps_all_false:
  "\<forall>s \<in> set steps. \<not> evaluate_condition ev (ws_condition s) (wf_ctx st)
   \<Longrightarrow> run_steps ev wk workflow steps st = (None, st)"
  by (induction steps) simp_all

text \<open>
  C7. A step whose condition holds and whose action result has \<open>success = False\<close>: under
  the effective policy \<open>abort\<close> (the step's \<open>on_error\<close>, else the workflow's) the loop ends at
  once, so none of the remaining steps is executed; under \<open>skip\<close>, and under any other
  policy or none, the loop goes on with the remaining steps from the state in which the
  failed result has been recorded.
\<close>

theorem failed_step_policy:
  assumes "evaluate_condition ev (ws_condition step) (wf_ctx st)"
      and "execute_step wk step (wf_ctx st) = Inr result"
      and "\<not> success result"
  shows "(error_strategy workflow step = Some ''abort'' \<longrightarrow>
            run_steps ev wk workflow (step # rest) st = (None, after_failed_step st step result)
            \<and> executed_steps (snd (run_steps ev wk workflow (step # rest) st))
                = executed_steps st @ [ws_id step])
       \<and> (error_strategy workflow step = Some ''skip'' \<longrightarrow>
            run_steps ev wk workflow (step # rest) st
              = run_steps ev wk workflow rest (after_failed_step st step result))
       \<and> (error_strategy workflow step \<noteq> Some ''abort'' \<longrightarrow>
            run_steps ev wk workflow (step # rest) st
              = run_steps ev wk workflow rest (after_failed_step st step result))"
  using assms by (simp add: after_failed_step_def Let_def)

theorem failed_step_policy_witness:
  "executed_steps (snd (run_steps (\<lambda>c x. Inr True) (\<lambda>a n x. Inr failed_result)
       (two_step_workflow (Some ''abort'') None) (wf_steps (two_step_workflow (Some ''abort'') None)) empty_state)) = [''s1'']
   \<and> executed_steps (snd (run_steps (\<lambda>c x. Inr True) (\<lambda>a n x. Inr failed_result)
       (two_step_workflow (Some ''skip'') None) (wf_steps (two_step_workflow (Some ''skip'') None)) empty_state)) = [''s1'', ''s2'']
   \<and> executed_steps (snd (run_steps (\<lambda>c x. Inr True) (\<lambda>a n x. Inr failed_result)
       (two_step_workflow None None) (wf_steps (two_step_workflow None None)) empty_state)) = [''s1'', ''s2'']
   \<and> executed_steps (snd (run_steps (\<lambda>c x. Inr True) (\<lambda>a n x. Inr failed_result)
       (two_step_workflow None (Some ''abort'')) (wf_steps (two_step_workflow None (Some ''abort''))) empty_state)) = [''s1'']"
  using failed_step_policy[of "\<lambda>c x. Inr True" "names_step ''s1'' (Some ''abort'')" empty_state
          "\<lambda>a n x. Inr failed_result" failed_result "two_step_workflow (Some ''abort'') None" "[names_step ''s2'' None]"]
        failed_step_policy[of "\<lambda>c x. Inr True" "names_step ''s1'' (Some ''skip'')" empty_state
          "\<lambda>a n x. Inr failed_result" failed_result "two_step_workflow (Some ''skip'') None" "[names_step ''s2'' None]"]
        failed_step_policy[of "\<lambda>c x. Inr True" "names_step ''s1'' None" empty_state
          "\<lambda>a n x. Inr failed_result" failed_result "two_step_workflow None None" "[names_step ''s2'' None]"]
        failed_step_policy[of "\<lambda>c x. Inr True" "names_step ''s1'' None" empty_state
          "\<lambda>a n x. Inr failed_result" failed_result "two_step_workflow None (Some ''abort'')" "[names_step ''s2'' None]"]
  by (simp add: two_step_workflow_def names_step_def empty_state_def failed_result_def
        evaluate_condition_def execute_step_def error_strategy_def after_failed_step_def Let_def)

text \<open>
  C10 as stated fails: a run can end with zero ActionResults and still report failure.
  When the oracle's first decision carries an action and a confidence that is not a
  number, the log line that formats it raises before the worker runs; the \<open>except\<close>
  branch of \<open>execute_task\<close> then returns \<open>success = False\<close> with an empty result list and
  status \<open>FAILED\<close>.
\<close>

theorem zero_results_counterexample:
  "res_action_results (execute_task (\<lambda>n. Inr unformattable_decision) (\<lambda>n a. ok_result) length 50 Map.empty) = []
   \<and> \<not> res_success (execute_task (\<lambda>n. Inr unformattable_decision) (\<lambda>n a. ok_result) length 50 Map.empty)
   \<and> res_status (execute_task (\<lambda>n. Inr unformattable_decision) (\<lambda>n a. ok_result) length 50 Map.empty) = FAILED"
  by (simp add: execute_task_def agent_loop.simps[of _ _ _ "\<lparr> step_count = 0, action_results = [], variables = Map.empty, last_decision = None \<rparr>"]
       loop_body_def decide_next_step_def unformattable_decision_def Let_def)

text \<open>
  C10 as amended. If a run reaches the final all-results check, that is, no exception
  reached the executor's outer handler (the returned dictionary has no \<open>error\<close> entry),
  and it has zero ActionResults, then both \<open>execute_task\<close> and \<open>execute_workflow\<close> report
  \<open>success = True\<close> and set the status to \<open>COMPLETED\<close>. This is the case when the oracle's
  first decision says stop (with a positive step budget) and when every workflow step's
  condition is false.
\<close>

theorem zero_results_vacuous_success:
  "(res_error (execute_task orc wk reflect max_steps vars) = None
      \<and> res_action_results (execute_task orc wk reflect max_steps vars) = []
     \<longrightarrow> res_success (execute_task orc wk reflect max_steps vars)
         \<and> res_status (execute_task orc wk reflect max_steps vars) = COMPLETED)
   \<and> (wr_error (execute_workflow ev rwk hook workflow ictx) = None
      \<and> wr_action_results (execute_workflow ev rwk hook workflow ictx) = []
     \<longrightarrow> wr_success (execute_workflow ev rwk hook workflow ictx)
         \<and> wr_status (execute_workflow ev rwk hook workflow ictx) = COMPLETED)
   \<and> (0 < max_steps \<and> \<not> should_continue (decide_next_step orc 1)
     \<longrightarrow> res_error (execute_task orc wk reflect max_steps vars) = None
         \<and> res_action_results (execute_task orc wk reflect max_steps vars) = []
         \<and> res_success (execute_task orc wk reflect max_steps vars)
         \<and> res_status (execute_task orc wk reflect max_steps vars) = COMPLETED)
   \<and> ((\<forall>s \<in> set (wf_steps workflow).
          \<not> evaluate_condition ev (ws_condition s) (initial_wf_context workflow ictx))
     \<longrightarrow> wr_error (execute_workflow ev rwk hook workflow ictx) = None
         \<and> wr_action_results (execute_workflow ev rwk hook workflow ictx) = []
         \<and> wr_success (execute_workflow ev rwk hook workflow ictx)
         \<and> wr_status (execute_workflow ev rwk hook workflow ictx) = COMPLETED)"
proof -
  have a: "res_error (execute_task orc wk reflect max_steps vars) = None
      \<and> res_action_results (execute_task orc wk reflect max_steps vars) = []
     \<longrightarrow> res_success (execute_task orc wk reflect max_steps vars)
         \<and> res_status (execute_task orc wk reflect max_steps vars) = COMPLETED"
    by (auto simp: execute_task_def Let_def split: prod.splits option.splits)
  have b: "wr_error (execute_workflow ev rwk hook workflow ictx) = None
      \<and> wr_action_results (execute_workflow ev rwk hook workflow ictx) = []
     \<longrightarrow> wr_success (execute_workflow ev rwk hook workflow ictx)
         \<and> wr_status (execute_workflow ev rwk hook workflow ictx) = COMPLETED"
    by (auto simp: execute_workflow_def Let_def split: prod.splits option.splits)
  have c: "0 < max_steps \<and> \<not> should_continue (decide_next_step orc 1)
     \<longrightarrow> res_error (execute_task orc wk reflect max_steps vars) = None
         \<and> res_action_results (execute_task orc wk reflect max_steps vars) = []
         \<and> res_success (execute_task orc wk reflect max_steps vars)
         \<and> res_status (execute_task orc wk reflect max_steps vars) = COMPLETED"
    by (auto simp: execute_task_def agent_first_stop Let_def)
  have d: "(\<forall>s \<in> set (wf_steps workflow).
          \<not> evaluate_condition ev (ws_condition s) (initial_wf_context workflow ictx))
     \<longrightarrow> wr_error (execute_workflow ev rwk hook workflow ictx) = None
         \<and> wr_action_results (execute_workflow ev rwk hook workflow ictx) = []
         \<and> wr_success (execute_workflow ev rwk hook workflow ictx)
         \<and> wr_status (execute_workflow ev rwk hook workflow ictx) = COMPLETED"
  proof
    assume h: "\<forall>s \<in> set (wf_steps workflow).
          \<not> evaluate_condition ev (ws_condition s) (initial_wf_context workflow ictx)"
    let ?st0 = "\<lparr> wf_ctx = initial_wf_context workflow ictx, wf_results = [], executed_steps = [], wf_shared = False \<rparr>"
    have "run_steps ev rwk workflow (wf_steps workflow) ?st0 = (None, ?st0)"
      using h by (intro run_steps_all_false) simp
    then show "wr_error (execute_workflow ev rwk hook workflow ictx) = None
         \<and> wr_action_results (execute_workflow ev rwk hook workflow ictx) = []
         \<and> wr_success (execute_workflow ev rwk hook workflow ictx)
         \<and> wr_status (execute_workflow ev rwk hook workflow ictx) = COMPLETED"
      by (simp add: execute_workflow_def initial_wf_context_def Let_def)
  qed
  show ?thesis using a b c d by blast
qed

theorem zero_results_vacuous_success_witness:
  "res_success (execute_task (\<lambda>n. Inr stop_decision) (\<lambda>n a. ok_result) length 50 Map.empty)
   \<and> res_status (execute_task (\<lambda>n. Inr stop_decision) (\<lambda>n a. ok_result) length 50 Map.empty) = COMPLETED
   \<and> wr_success (execute_workflow (\<lambda>c x. Inr False) (\<lambda>a n x. Inr ok_result) (\<lambda>h c. (None, c))
        guarded_workflow \<lparr> ctx_variables = Map.empty, ctx_action_results = [] \<rparr>)
   \<and> wr_status (execute_workflow (\<lambda>c x. Inr False) (\<lambda>a n x. Inr ok_result) (\<lambda>h c. (None, c))
        guarded_workflow \<lparr> ctx_variables = Map.empty, ctx_action_results = [] \<rparr>) = COMPLETED"
  using zero_results_vacuous_success[of "\<lambda>n. Inr stop_decision" "\<lambda>n a. ok_result" length 50 Map.empty
          "\<lambda>c x. Inr False" "\<lambda>a n x. Inr ok_result" "\<lambda>h c. (None, c)" guarded_workflow
          "\<lparr> ctx_variables = Map.empty, ctx_action_results = [] \<rparr>"]
  by (simp add: decide_next_step_def stop_decision_def guarded_workflow_def names_step_def
        evaluate_condition_def)

section \<open>Properties of the ToolRegistry\<close>

lemma str_in_sublist: "str_in a b = sublist a b"
  by (induction b) (auto simp: sublist_Cons_right)

lemma sublist_join: "t \<in> set xs \<Longrightarrow> sublist t (join sep xs)"
proof (induction sep xs rule: join.induct)
  case (3 sep x y ys)
  then show ?case
    by (auto intro: sublist_appendI simp: sublist_append)
qed simp_all

lemma sublist_embed: "sublist t m \<Longrightarrow> sublist t (pre @ m @ post)"
  unfolding sublist_def by (metis append.assoc)

text \<open>
  C6. For a name that is not registered, whatever the arguments, \<open>execute\<close> raises nothing:
  it returns a result with \<open>success = False\<close>. When some registered name contains the
  requested one or is contained in it (ignoring case), the message names exactly those
  tools, each of them occurring in it; otherwise the message names every registered tool.
  The result's \<open>available_tools\<close> entry always carries the full catalogue.
\<close>

theorem execute_unregistered:
  assumes "map_of tools name = None"
  shows "\<exists>r. registry_execute lower tools name args = Inr r
           \<and> \<not> tr_success r
           \<and> tr_available_tools r = Some (map fst tools)
           \<and> (similar_tools lower tools name \<noteq> [] \<longrightarrow>
                tr_message r = tool_prefix @ name @ not_exist_suffix @ did_you_mean
                                 @ join '', '' (similar_tools lower tools name) @ ''?''
                \<and> (\<forall>t \<in> set (similar_tools lower tools name). sublist t (tr_message r)))
           \<and> (similar_tools lower tools name = [] \<longrightarrow>
                tr_message r = tool_prefix @ name @ not_exist_suffix
                    @ (if tools = [] then [] else available_prefix @ join '', '' (map fst tools))
                \<and> (\<forall>t \<in> set (map fst tools). sublist t (tr_message r)))"
proof -
  let ?sim = "similar_tools lower tools name"
  let ?head = "tool_prefix @ name @ not_exist_suffix"
  let ?m1 = "(?head @ did_you_mean) @ join '', '' ?sim @ ''?''"
  let ?m2 = "(?head @ available_prefix) @ join '', '' (map fst tools) @ []"
  have l1: "\<forall>t \<in> set ?sim. sublist t ?m1"
    using sublist_join sublist_embed by blast
  have l2: "\<forall>t \<in> set (map fst tools). sublist t ?m2"
    using sublist_join sublist_embed by blast
  show ?thesis
  proof (cases "?sim = []")
    case False
    then show ?thesis using assms l1 by (simp add: registry_execute_def Let_def)
  next
    case True
    show ?thesis
    proof (cases "tools = []")
      case True
      then show ?thesis using assms \<open>?sim = []\<close> by (simp add: registry_execute_def Let_def)
    next
      case False
      then show ?thesis using assms \<open>?sim = []\<close> l2 by (simp add: registry_execute_def Let_def)
    qed
  qed
qed

theorem execute_unregistered_witness:
  "(\<exists>r. registry_execute ascii_lower sample_registry ''Click2'' [] = Inr r
        \<and> \<not> tr_success r \<and> sublist ''click'' (tr_message r))
   \<and> (\<exists>r. registry_execute ascii_lower sample_registry ''zoom'' [] = Inr r
        \<and> \<not> tr_success r \<and> sublist ''navigate'' (tr_message r)
        \<and> sublist ''scroll'' (tr_message r))"
proof -
  have reg: "sample_registry = [(''navigate'', plain_tool ''navigate''), (''click'', plain_tool ''click''),
      (''scroll'', plain_tool ''scroll'')]"
    by (simp add: sample_registry_def register_def plain_tool_def)
  have n1: "map_of sample_registry ''Click2'' = None" by (simp add: reg)
  have n2: "map_of sample_registry ''zoom'' = None" by (simp add: reg)
  have s1: "similar_tools ascii_lower sample_registry ''Click2'' = [''click'']"
    by (simp add: reg similar_tools_def ascii_lower_def ascii_lower_char_def)
  have s2: "similar_tools ascii_lower sample_registry ''zoom'' = []"
    by (simp add: reg similar_tools_def ascii_lower_def ascii_lower_char_def)
  show ?thesis
    using execute_unregistered[OF n1, of ascii_lower "[]"] execute_unregistered[OF n2, of ascii_lower "[]"]
    unfolding s1 s2 by (auto simp: reg)
qed

section \<open>Properties of the ProtocolClient\<close>

text \<open>
  C4 as stated fails: on a connected client a second \<open>connect\<close> spawns a second child
  process, performs a second handshake and replaces the session.
\<close>

theorem connect_twice_counterexample:
  "fst connected_once
   \<and> connected (fst (snd connected_once))
   \<and> snd (connect friendly_env (fst (snd connected_once)) (snd (snd connected_once))) \<noteq> snd connected_once
   \<and> spawned (snd (snd connected_once)) = 1
   \<and> spawned (snd (snd (connect friendly_env (fst (snd connected_once)) (snd (snd connected_once))))) = 2
   \<and> handshakes (snd (snd (connect friendly_env (fst (snd connected_once)) (snd (snd connected_once))))) = 2
   \<and> session (fst (snd connected_once)) = Some 0
   \<and> session (fst (snd (connect friendly_env (fst (snd connected_once)) (snd (snd connected_once))))) = Some 1"
  by (simp add: connected_once_def connect_def list_tools_def friendly_env_def fresh_client_def
        fresh_world_def Let_def convert_tool_def)

text \<open>
  C4 as amended. \<open>connect\<close> never inspects the \<open>connected\<close> flag. With a server command and
  the stdio transport it runs the whole connection sequence, on a connected client as on
  a fresh one: when the command parses and the spawn and the handshake succeed, it spawns
  one more child process, performs one more handshake, stores the new session and streams
  in place of the old ones (whose resources stay on the exit stack), leaves the client
  connected and returns \<open>True\<close>. Only the two early returns (no server command, a transport
  other than stdio) leave client and world as they were, with the result \<open>False\<close>.
\<close>

theorem connect_reruns_sequence:
  "(server_command c = Some cmd \<and> cmd \<noteq> [] \<and> transport c = ''stdio''
      \<and> shlex_split env cmd = Inr (command # args)
      \<and> spawn_outcome env (spawned w) = None
      \<and> initialize_outcome env (sessions_opened w) = None
     \<longrightarrow> (\<exists>c' w'. connect env c w = (True, c', w')
            \<and> spawned w' = spawned w + 1
            \<and> handshakes w' = handshakes w + 1
            \<and> session c' = Some (sessions_opened w)
            \<and> streams c' = Some (spawned w)
            \<and> exit_stack c' = ClientSession (sessions_opened w) # StdioProcess (spawned w) # exit_stack c
            \<and> connected c'))
   \<and> (server_command c = None \<or> server_command c = Some [] \<or> transport c \<noteq> ''stdio''
     \<longrightarrow> connect env c w = (False, c, w))"
proof -
  have lt: "\<And>c w. connected c \<Longrightarrow> session c \<noteq> None \<Longrightarrow>
     (\<exists>ts c' w'. list_tools env c w = (ts, c', w') \<and> spawned w' = spawned w
        \<and> handshakes w' = handshakes w \<and> session c' = session c \<and> streams c' = streams c
        \<and> exit_stack c' = exit_stack c \<and> connected c')"
    by (auto simp: list_tools_def split: option.splits sum.splits)
  show ?thesis
  proof (intro conjI impI)
    assume h: "server_command c = Some cmd \<and> cmd \<noteq> [] \<and> transport c = ''stdio''
      \<and> shlex_split env cmd = Inr (command # args)
      \<and> spawn_outcome env (spawned w) = None
      \<and> initialize_outcome env (sessions_opened w) = None"
    let ?c3 = "c\<lparr>stdio_params := Some (command, args),
                 exit_stack := ClientSession (sessions_opened w) # StdioProcess (spawned w) # exit_stack c,
                 streams := Some (spawned w), session := Some (sessions_opened w),
                 connected := True\<rparr>"
    let ?w3 = "w\<lparr>spawned := spawned w + 1, sessions_opened := sessions_opened w + 1,
                 handshakes := handshakes w + 1\<rparr>"
    obtain ts c' w' where l: "list_tools env ?c3 ?w3 = (ts, c', w')" "spawned w' = spawned ?w3"
        "handshakes w' = handshakes ?w3" "session c' = session ?c3" "streams c' = streams ?c3"
        "exit_stack c' = exit_stack ?c3" "connected c'"
      using lt[of ?c3 ?w3] by auto
    have "connect env c w = (True, c', w')"
      using h l(1) by (simp add: connect_def Let_def)
    then show "\<exists>c' w'. connect env c w = (True, c', w')
            \<and> spawned w' = spawned w + 1
            \<and> handshakes w' = handshakes w + 1
            \<and> session c' = Some (sessions_opened w)
            \<and> streams c' = Some (spawned w)
            \<and> exit_stack c' = ClientSession (sessions_opened w) # StdioProcess (spawned w) # exit_stack c
            \<and> connected c'"
      using l by simp
  next
    assume "server_command c = None \<or> server_command c = Some [] \<or> transport c \<noteq> ''stdio''"
    then show "connect env c w = (False, c, w)"
      by (auto simp: connect_def split: option.splits)
  qed
qed

theorem connect_reruns_sequence_witness:
  "(\<exists>c' w'. connect friendly_env (fst (snd connected_once)) (snd (snd connected_once)) = (True, c', w')
      \<and> spawned w' = 2 \<and> handshakes w' = 2 \<and> session c' = Some 1 \<and> connected c')
   \<and> connect friendly_env (fresh_client\<lparr>transport := ''http''\<rparr>) fresh_world
        = (False, fresh_client\<lparr>transport := ''http''\<rparr>, fresh_world)"
proof -
  let ?c = "fst (snd connected_once)"
  let ?w = "snd (snd connected_once)"
  have once: "?c =
     \<lparr>server_command = Some ''server'', transport = ''stdio'',
        stdio_params = Some (''server'', []),
        exit_stack = [ClientSession 0, StdioProcess 0], session = Some 0,
        streams = Some 0, connected = True,
        client_tools = [\<lparr>td_name = ''read_file'', td_description = [], td_inputSchema = ''{}''\<rparr>]\<rparr>"
     "?w = \<lparr>spawned = 1, sessions_opened = 1, handshakes = 1, discoveries = 1, closed = []\<rparr>"
    by (simp_all add: connected_once_def connect_def list_tools_def friendly_env_def fresh_client_def
        fresh_world_def Let_def convert_tool_def)
  have hyp: "server_command ?c = Some ''server'' \<and> ''server'' \<noteq> [] \<and> transport ?c = ''stdio''
      \<and> shlex_split friendly_env ''server'' = Inr (''server'' # [])
      \<and> spawn_outcome friendly_env (spawned ?w) = None
      \<and> initialize_outcome friendly_env (sessions_opened ?w) = None"
    unfolding once by (simp add: friendly_env_def)
  have again: "\<exists>c' w'. connect friendly_env ?c ?w = (True, c', w')
            \<and> spawned w' = spawned ?w + 1
            \<and> handshakes w' = handshakes ?w + 1
            \<and> session c' = Some (sessions_opened ?w)
            \<and> streams c' = Some (spawned ?w)
            \<and> exit_stack c' = ClientSession (sessions_opened ?w) # StdioProcess (spawned ?w) # exit_stack ?c
            \<and> connected c'"
    using connect_reruns_sequence[of ?c "''server''" friendly_env "''server''" "[]" ?w] hyp
    by blast
  have early: "connect friendly_env (fresh_client\<lparr>transport := ''http''\<rparr>) fresh_world
        = (False, fresh_client\<lparr>transport := ''http''\<rparr>, fresh_world)"
    using connect_reruns_sequence[of "fresh_client\<lparr>transport := ''http''\<rparr>" "''server''" friendly_env
            "''server''" "[]" fresh_world]
    by simp
  from again obtain c' w' where "connect friendly_env ?c ?w = (True, c', w')"
      "spawned w' = 2" "handshakes w' = 2" "session c' = Some 1" "connected c'"
    unfolding once(2) by auto
  then show ?thesis using early by blast
qed

lemma first_item_text:
  assumes "\<forall>i \<in> set cs. not_text_tagged i" "cs \<noteq> []"
  shows "(if map_of (hd (map convert_content cs)) ''type'' = Some ''text''
          then (case map_of (hd (map convert_content cs)) ''text'' of
                  None \<Rightarrow> Inl ''KeyError'' | Some t \<Rightarrow> Inr (Some t))
          else Inr None) = Inr (case hd cs of TextContent t \<Rightarrow> Some t | _ \<Rightarrow> None)"
proof (cases cs)
  case Nil
  then show ?thesis using assms by simp
next
  case (Cons i rest)
  then have "not_text_tagged i" using assms by simp
  then show ?thesis using Cons
    by (cases i) (simp_all add: convert_content_def)
qed

text \<open>
  C8. \<open>call_tool\<close> raises whenever the client has no session or is not connected. On a
  connected client an exception of the transport during the call is re-raised; a response
  of the tool flagged as an error is returned, not raised: the result dictionary carries
  \<open>isError = True\<close> and, under \<open>error\<close>, the text of the first text item of the response
  (no \<open>error\<close> entry when the response has no text item).
\<close>

theorem call_tool_errors:
  "(session c = None \<or> \<not> connected c \<longrightarrow> (\<exists>e. call_tool env c name arguments = Inl e))
   \<and> (session c = Some s \<and> connected c \<longrightarrow>
        (\<forall>e. call_tool_response env s name (case arguments of None \<Rightarrow> [] | Some a \<Rightarrow> a) = Inl e
            \<longrightarrow> call_tool env c name arguments = Inl e)
      \<and> (\<forall>result. call_tool_response env s name (case arguments of None \<Rightarrow> [] | Some a \<Rightarrow> a) = Inr result
            \<and> isError result \<and> (\<forall>i \<in> set (content result). not_text_tagged i)
            \<longrightarrow> (\<exists>d. call_tool env c name arguments = Inr d
                  \<and> rd_isError d = Some True
                  \<and> rd_error d = first_text (content result))))"
proof (intro conjI impI allI)
  assume "session c = None \<or> \<not> connected c"
  then show "\<exists>e. call_tool env c name arguments = Inl e"
    by (auto simp: call_tool_def split: option.splits)
next
  fix e
  assume "session c = Some s \<and> connected c"
    and "call_tool_response env s name (case arguments of None \<Rightarrow> [] | Some a \<Rightarrow> a) = Inl e"
  then show "call_tool env c name arguments = Inl e"
    by (simp add: call_tool_def)
next
  fix result
  assume sc: "session c = Some s \<and> connected c"
    and r: "call_tool_response env s name (case arguments of None \<Rightarrow> [] | Some a \<Rightarrow> a) = Inr result
            \<and> isError result \<and> (\<forall>i \<in> set (content result). not_text_tagged i)"
  show "\<exists>d. call_tool env c name arguments = Inr d
                  \<and> rd_isError d = Some True
                  \<and> rd_error d = first_text (content result)"
  proof (cases "content result = []")
    case True
    then show ?thesis using sc r by (simp add: call_tool_def Let_def)
  next
    case False
    have ft: "(if map_of (hd (map convert_content (content result))) ''type'' = Some ''text''
          then (case map_of (hd (map convert_content (content result))) ''text'' of
                  None \<Rightarrow> Inl ''KeyError'' | Some t \<Rightarrow> Inr (Some t))
          else Inr None) = Inr (case hd (content result) of TextContent t \<Rightarrow> Some t | _ \<Rightarrow> None)"
      using first_item_text[of "content result"] r False by blast
    show ?thesis using sc r False
      by (simp add: call_tool_def Let_def ft del: not_text_tagged.simps)
  qed
qed

theorem call_tool_errors_witness:
  "(\<exists>e. call_tool friendly_env fresh_client ''read_file'' None = Inl e)
   \<and> call_tool friendly_env (fst (snd connected_once)) ''crash'' None = Inl ''BrokenPipeError''
   \<and> (\<exists>d. call_tool friendly_env (fst (snd connected_once)) ''nope'' None = Inr d
         \<and> rd_isError d = Some True \<and> rd_error d = Some ''Unknown tool'')"
proof -
  let ?c = "fst (snd connected_once)"
  have once: "session ?c = Some 0 \<and> connected ?c"
    by (simp add: connected_once_def connect_def list_tools_def friendly_env_def fresh_client_def
        fresh_world_def Let_def convert_tool_def)
  have a: "\<exists>e. call_tool friendly_env fresh_client ''read_file'' None = Inl e"
    using call_tool_errors[where c=fresh_client and s=0 and env=friendly_env and name="''read_file''" and arguments=None]
    by (simp add: fresh_client_def)
  have b: "call_tool friendly_env ?c ''crash'' None = Inl ''BrokenPipeError''"
    using call_tool_errors[where c="?c" and s=0 and env=friendly_env and name="''crash''" and arguments=None] once
    by (simp add: friendly_env_def)
  have r: "call_tool_response friendly_env 0 ''nope'' (case None of None \<Rightarrow> [] | Some a \<Rightarrow> a)
             = Inr \<lparr> content = [TextContent ''Unknown tool''], structuredContent = None, isError = True \<rparr>"
    by (simp add: friendly_env_def)
  have c: "\<exists>d. call_tool friendly_env ?c ''nope'' None = Inr d
         \<and> rd_isError d = Some True
         \<and> rd_error d = first_text (content \<lparr> content = [TextContent ''Unknown tool''], structuredContent = None, isError = True \<rparr>)"
    using call_tool_errors[where c="?c" and s=0 and env=friendly_env and name="''nope''" and arguments=None] once r
    by simp
  show ?thesis using a b c by simp
qed

section \<open>Properties of the SelfConsistencyGenerator\<close>

lemma replicate_five: "replicate 5 x = [x, x, x, x, x]"
  by (simp add: numeral_eq_Suc)

lemma upt_five: "[0 ..< 5] = [0, 1, 2, 3, 4]" "[Suc 0 ..< 5] = [1, 2, 3, 4]"
  "[Suc 1 ..< 5] = [2, 3, 4]" "[Suc 2 ..< 5] = [3, 4]" "[Suc 3 ..< 5] = [4]" "[Suc 4 ..< 5] = []"
  by (simp_all add: upt_rec)

lemma collect_tools_iter:
  "collect_tools subs = Inr ts \<Longrightarrow> \<exists>xs. py_iter subs = Inr xs"
  by (cases "py_iter subs") (simp_all add: collect_tools_def bind_err_def)

text \<open>A plan that names a tool is as similar to itself as can be.\<close>

lemma similarity_self:
  assumes "py_truthy d" "py_get_list d ''subtasks'' = Inr subs" "collect_tools subs = Inr ts"
    "ts \<noteq> []"
  shows "calculate_similarity d d = Inr 1"
proof -
  obtain xs where it: "py_iter subs = Inr xs" using collect_tools_iter[OF assms(3)] by blast
  have f: "filter (\<lambda>t. t \<in> set ts) ts = ts" by simp
  have r: "remdups ts \<noteq> []" using assms(4) by simp
  have u: "remdups (ts @ ts) = remdups ts" by (simp add: remdups_append)
  show ?thesis
    using assms it r
    by (simp add: calculate_similarity_def bind_err_def py_len_def Let_def f u)
qed

text \<open>A plan without any tool: the self-similarity is only the 0.3 of the equal subtask counts.\<close>

lemma similarity_self_no_tools:
  assumes "py_truthy d" "py_get_list d ''subtasks'' = Inr subs" "collect_tools subs = Inr []"
  shows "calculate_similarity d d = Inr (3 / 10)"
proof -
  obtain xs where it: "py_iter subs = Inr xs" using collect_tools_iter[OF assms(3)] by blast
  show ?thesis
    using assms it
    by (simp add: calculate_similarity_def bind_err_def py_len_def Let_def)
qed

lemma has_subtasks:
  assumes "py_get_list d ''subtasks'' = Inr subs" "collect_tools subs = Inr ts" "ts \<noteq> []"
  shows "py_contains ''subtasks'' d = Inr True \<and> py_getitem d ''subtasks'' = Inr subs"
proof (cases d)
  case (JObj kvs)
  show ?thesis
  proof (cases "map_of kvs ''subtasks''")
    case None
    then have "subs = JArr []" using assms(1) JObj by simp
    then show ?thesis using assms by (simp add: collect_tools_def bind_err_def)
  next
    case (Some v)
    then have "''subtasks'' \<in> fst ` set kvs" using map_of_SomeD[OF Some] by force
    then show ?thesis using Some assms(1) JObj by simp
  qed
qed (use assms in simp_all)

lemma max_by_same:
  "max_by f [x, x, x, x, x] = Some x"
  by simp

lemma weighted_vote_identical:
  assumes "data_truthy x" "parsed_data x = Some d"
  shows "weighted_vote [x, x, x, x, x] = Inr d"
  using assms by (simp add: weighted_vote_def)

lemma quality_based_vote_identical:
  assumes "data_truthy x" "parsed_data x = Some d"
  shows "quality_based_vote dumps [x, x, x, x, x] = Inr d"
  using assms by (simp add: quality_based_vote_def dict_get_def Let_def)

lemma clustering_vote_identical:
  assumes "data_truthy x" "parsed_data x = Some d" "calculate_similarity d d = Inr 1"
  shows "clustering_vote [x, x, x, x, x] = Inr d"
proof -
  have j: "\<And>i j st. i < 5 \<Longrightarrow> j < 5 \<Longrightarrow> join_cluster [x, x, x, x, x] i j st =
      (if j \<in> set (snd st) then Inr st else Inr (fst st @ [x], snd st @ [j]))"
    using assms by (auto simp: join_cluster_def bind_err_def nth_Cons' )
  have o0: "open_cluster [x, x, x, x, x] 0 ([], []) = Inr ([[x, x, x, x, x]], [0, 1, 2, 3, 4])"
    using assms by (simp add: open_cluster_def bind_err_def upt_five j)
  have o: "\<And>i cl used. i \<in> set used \<Longrightarrow> open_cluster [x, x, x, x, x] i (cl, used) = Inr (cl, used)"
    by (simp add: open_cluster_def)
  show ?thesis
    using assms by (simp add: clustering_vote_def bind_err_def upt_five o0 o)
qed

lemma majority_vote_identical:
  assumes "data_truthy x" "parsed_data x = Some d"
    "py_get_list d ''subtasks'' = Inr subs" "collect_tools subs = Inr ts" "ts \<noteq> []"
  shows "majority_vote [x, x, x, x, x] = Inr d"
proof -
  obtain xs where it: "py_iter subs = Inr xs" using collect_tools_iter[OF assms(4)] by blast
  note hs = has_subtasks[OF assms(3,4,5)]
  define bump where "bump = (\<lambda>tv::(json \<times> nat) list. foldl (\<lambda>tv t. dict_set t (dict_get tv t 0 + 1) tv) tv ts)"
  have cv: "\<And>tv sc. count_votes x (tv, sc) =
      Inr (bump tv, dict_set (length xs) (dict_get sc (length xs) 0 + 1) sc)"
    using assms hs it by (simp add: count_votes_def bind_err_def py_len_def Let_def bump_def)
  define tv5 where "tv5 = bump (bump (bump (bump (bump []))))"
  have c5: "fold_err count_votes [x, x, x, x, x] ([], []) = Inr (tv5, [(length xs, 5)])"
    by (simp add: cv dict_get_def tv5_def)
  define sc where "sc = 2 + sum_list (map (\<lambda>t. dict_get tv5 t 0) ts)"
  have ms: "majority_score tv5 (length xs) d = Inr sc"
    using hs it assms(4) by (simp add: majority_score_def bind_err_def py_len_def sc_def)
  have pb: "\<And>st. pick_best tv5 (length xs) x st = Inr (if sc > snd st then (Some x, sc) else st)"
    using assms hs ms by (simp add: pick_best_def bind_err_def)
  have scpos: "sc > 0" by (simp add: sc_def)
  have p5: "fold_err (pick_best tv5 (length xs)) [x, x, x, x, x] (None, 0) = Inr (Some x, sc)"
    using scpos by (simp add: pb)
  show ?thesis
    using assms(2) by (simp add: majority_vote_def bind_err_def c5 p5 del: fold_err.simps)
qed

lemma vote_identical:
  assumes "data_truthy x" "parsed_data x = Some d"
    "py_get_list d ''subtasks'' = Inr subs" "collect_tools subs = Inr ts" "ts \<noteq> []"
  shows "vote strat dumps [x, x, x, x, x] = Inr d"
proof -
  have "py_truthy d" using assms(1,2) by (simp add: data_truthy_def)
  then have sim: "calculate_similarity d d = Inr 1"
    using similarity_self assms by blast
  show ?thesis
    by (cases strat)
       (simp_all add: vote_def majority_vote_identical[OF assms] weighted_vote_identical[OF assms(1,2)]
          clustering_vote_identical[OF assms(1,2) sim] quality_based_vote_identical[OF assms(1,2)])
qed

lemma consistency_identical:
  assumes "data_truthy x" "parsed_data x = Some d" "calculate_similarity d d = Inr c"
  shows "calculate_consistency_score [x, x, x, x, x] d = Inr c"
  using assms by (simp add: calculate_consistency_score_def bind_err_def data_truthy_def)

lemma keep_parsed_failed:
  "\<forall>t \<in> set samples. \<exists>e. parse_text json_loads parse_fn t = Inl e \<Longrightarrow>
   fold_err (keep_parsed json_loads parse_fn validate_fn) samples acc = Inr acc"
  by (induction samples arbitrary: acc) (auto simp: keep_parsed_def parse_sample_def Let_def)

text \<open>
  C5 as stated fails in its first half: five identical samples that parse to a plan with
  one subtask and no action give the consistency score 0.3, the similarity of that plan
  to itself (default majority strategy, default JSON parsing).
\<close>

theorem identical_samples_counterexample:
  "vote_on_samples default_generator sample_loads no_dumps None None (replicate 5 idle_text)
     = Inr \<lparr> best_result = idle_plan, consistency_score = 3 / 10, sample_count = 5,
             valid_sample_count = 5, voting_details = [] \<rparr>"
proof -
  have e: "extract_json idle_text = idle_text"
    by (simp add: extract_json_def idle_text_def py_strip_def is_space_def brace_search_def Let_def)
  have p: "parse_sample sample_loads None idle_text =
      \<lparr> sr_content = idle_text, parsed_data = Some idle_plan, is_valid = True,
        quality_score = 0, parse_error = None \<rparr>"
    by (simp add: parse_sample_def parse_text_def e sample_loads_def)
  let ?x = "\<lparr> sr_content = idle_text, parsed_data = Some idle_plan, is_valid = True,
        quality_score = 1, parse_error = None \<rparr>"
  let ?p = "\<lparr> sr_content = idle_text, parsed_data = Some idle_plan, is_valid = True,
        quality_score = 0, parse_error = None \<rparr>"
  have k: "fold_err (keep_parsed sample_loads None None) [idle_text, idle_text, idle_text, idle_text, idle_text] []
      = Inr [?p, ?p, ?p, ?p, ?p]"
    by (simp add: keep_parsed_def p Let_def)
  have q: "calculate_quality_score ?p = Inr 1"
    by (simp add: calculate_quality_score_def idle_plan_def bind_err_def)
  have sc: "map_err (\<lambda>p. bind_err (calculate_quality_score p) (\<lambda>q. Inr (p\<lparr>quality_score := q\<rparr>)))
              [?p, ?p, ?p, ?p, ?p] = Inr [?x, ?x, ?x, ?x, ?x]"
    by (simp add: q bind_err_def)
  have tr: "data_truthy ?x" "parsed_data ?x = Some idle_plan"
    by (simp_all add: data_truthy_def idle_plan_def)
  have ct: "collect_tools (JArr [JObj [(''id'', JStr ''subtask_1''),
       (''description'', JStr ''think about it''), (''actions'', JArr [])]]) = Inr []"
    by (simp add: collect_tools_def action_tools_def bind_err_def)
  have sim: "calculate_similarity idle_plan idle_plan = Inr (3 / 10)"
    by (rule similarity_self_no_tools[OF _ _ ct]) (simp_all add: idle_plan_def)
  have v: "majority_vote [?x, ?x, ?x, ?x, ?x] = Inr idle_plan"
    by (simp add: majority_vote_def count_votes_def pick_best_def majority_score_def bind_err_def
          data_truthy_def idle_plan_def collect_tools_def action_tools_def py_len_def dict_get_def Let_def)
  have c: "calculate_consistency_score [?x, ?x, ?x, ?x, ?x] idle_plan = Inr (3 / 10)"
    by (rule consistency_identical[OF tr sim])
  show ?thesis
    unfolding vote_on_samples_def replicate_five k
    by (simp add: bind_err_Inr sc v c vote_def default_generator_def
          del: fold_err.simps map_err.simps)
qed

text \<open>
  C5 as amended. Voting over 5 identical samples that parse to a plan naming at least one
  tool (a non-empty dictionary whose subtasks can be walked, with a computable quality
  score) yields the consistency score 1.0 and that plan as the winner, under every voting
  strategy and with or without a validator. Voting over samples that all fail to parse,
  5 or any other number, yields the empty plan with \<open>valid_sample_count = 0\<close> and the
  consistency score 0.
\<close>

theorem identical_samples_consistency:
  "(parse_text json_loads parse_fn s = Inr d
      \<and> (\<forall>v. validate_fn = Some v \<longrightarrow> (\<exists>ok. v d = Inr ok))
      \<and> py_truthy d \<and> py_get_list d ''subtasks'' = Inr subs
      \<and> collect_tools subs = Inr ts \<and> ts \<noteq> []
      \<and> (\<exists>q. calculate_quality_score \<lparr> sr_content = s, parsed_data = Some d, is_valid = True,
                 quality_score = 0, parse_error = None \<rparr> = Inr q)
     \<longrightarrow> (\<exists>r. vote_on_samples gen json_loads dumps parse_fn validate_fn (replicate 5 s) = Inr r
            \<and> consistency_score r = 1 \<and> best_result r = d
            \<and> sample_count r = 5 \<and> valid_sample_count r = 5))
   \<and> ((\<forall>t \<in> set samples. \<exists>e. parse_text json_loads parse_fn t = Inl e)
     \<longrightarrow> vote_on_samples gen json_loads dumps parse_fn validate_fn samples
           = Inr \<lparr> best_result = JObj [], consistency_score = 0, sample_count = length samples,
                   valid_sample_count = 0,
                   voting_details = [(''error'', ''All samples failed to parse'')] \<rparr>)"
proof (intro conjI impI)
  assume "\<forall>t \<in> set samples. \<exists>e. parse_text json_loads parse_fn t = Inl e"
  then show "vote_on_samples gen json_loads dumps parse_fn validate_fn samples
           = Inr \<lparr> best_result = JObj [], consistency_score = 0, sample_count = length samples,
                   valid_sample_count = 0,
                   voting_details = [(''error'', ''All samples failed to parse'')] \<rparr>"
    by (simp add: vote_on_samples_def keep_parsed_failed bind_err_def)
next
  assume h: "parse_text json_loads parse_fn s = Inr d
      \<and> (\<forall>v. validate_fn = Some v \<longrightarrow> (\<exists>ok. v d = Inr ok))
      \<and> py_truthy d \<and> py_get_list d ''subtasks'' = Inr subs
      \<and> collect_tools subs = Inr ts \<and> ts \<noteq> []
      \<and> (\<exists>q. calculate_quality_score \<lparr> sr_content = s, parsed_data = Some d, is_valid = True,
                 quality_score = 0, parse_error = None \<rparr> = Inr q)"
  let ?p0 = "\<lparr> sr_content = s, parsed_data = Some d, is_valid = True,
                 quality_score = 0, parse_error = None \<rparr>"
  have p: "parse_sample json_loads parse_fn s = ?p0"
    using h by (simp add: parse_sample_def)
  obtain q where q: "calculate_quality_score ?p0 = Inr q" using h by blast
  obtain ok where keep: "\<And>acc. keep_parsed json_loads parse_fn validate_fn s acc
        = Inr (acc @ [\<lparr> sr_content = s, parsed_data = Some d, is_valid = ok,
                 quality_score = 0, parse_error = None \<rparr>])"
  proof (cases validate_fn)
    case None
    then have "\<And>acc. keep_parsed json_loads parse_fn validate_fn s acc = Inr (acc @ [\<lparr> sr_content = s, parsed_data = Some d, is_valid = True,
                 quality_score = 0, parse_error = None \<rparr>])"
      by (simp add: keep_parsed_def p Let_def)
    then show ?thesis using that by blast
  next
    case (Some v)
    then obtain ok where "v d = Inr ok" using h by blast
    then have "\<And>acc. keep_parsed json_loads parse_fn validate_fn s acc = Inr (acc @ [\<lparr> sr_content = s, parsed_data = Some d, is_valid = ok,
                 quality_score = 0, parse_error = None \<rparr>])"
      using Some by (simp add: keep_parsed_def p Let_def bind_err_def)
    then show ?thesis using that by blast
  qed
  let ?p1 = "\<lparr> sr_content = s, parsed_data = Some d, is_valid = ok,
                 quality_score = 0, parse_error = None \<rparr>"
  obtain q1 where q1: "calculate_quality_score ?p1 = Inr q1"
    using q by (cases ok) (simp_all add: calculate_quality_score_def)
  let ?x = "\<lparr> sr_content = s, parsed_data = Some d, is_valid = ok,
                 quality_score = q1, parse_error = None \<rparr>"
  have k: "fold_err (keep_parsed json_loads parse_fn validate_fn) [s, s, s, s, s] [] = Inr [?p1, ?p1, ?p1, ?p1, ?p1]"
    by (simp add: keep)
  have sc: "map_err (\<lambda>p. bind_err (calculate_quality_score p) (\<lambda>q. Inr (p\<lparr>quality_score := q\<rparr>)))
              [?p1, ?p1, ?p1, ?p1, ?p1] = Inr [?x, ?x, ?x, ?x, ?x]"
    by (simp add: q1 bind_err_def)
  have tr: "data_truthy ?x" "parsed_data ?x = Some d"
    using h by (simp_all add: data_truthy_def)
  have sim: "calculate_similarity d d = Inr 1"
    using similarity_self h by blast
  have v: "vote (voting_strategy gen) dumps [?x, ?x, ?x, ?x, ?x] = Inr d"
    using vote_identical[OF tr] h by blast
  have c: "calculate_consistency_score [?x, ?x, ?x, ?x, ?x] d = Inr 1"
    by (rule consistency_identical[OF tr sim])
  have "vote_on_samples gen json_loads dumps parse_fn validate_fn (replicate 5 s)
      = Inr \<lparr> best_result = d, consistency_score = 1, sample_count = 5,
              valid_sample_count = 5, voting_details = [] \<rparr>"
    unfolding vote_on_samples_def replicate_five k
    by (simp add: bind_err_Inr sc v c del: fold_err.simps map_err.simps)
  then show "\<exists>r. vote_on_samples gen json_loads dumps parse_fn validate_fn (replicate 5 s) = Inr r
            \<and> consistency_score r = 1 \<and> best_result r = d
            \<and> sample_count r = 5 \<and> valid_sample_count r = 5"
    by simp
qed

theorem identical_samples_consistency_witness:
  "(\<exists>r. vote_on_samples default_generator sample_loads no_dumps None None (replicate 5 tool_text) = Inr r
        \<and> consistency_score r = 1 \<and> best_result r = navigate_plan
        \<and> sample_count r = 5 \<and> valid_sample_count r = 5)
   \<and> vote_on_samples default_generator sample_loads no_dumps None None (replicate 5 ''I cannot help'')
       = Inr \<lparr> best_result = JObj [], consistency_score = 0, sample_count = 5,
               valid_sample_count = 0,
               voting_details = [(''error'', ''All samples failed to parse'')] \<rparr>"
proof -
  have e1: "extract_json tool_text = ''{\"subtasks\": [{\"actions\": [{\"tool\": \"navigate\"}]}]}''"
    by (simp add: extract_json_def tool_text_def py_strip_def is_space_def fenced_body_def
          py_find_from_def py_slice_def Let_def)
  have p1: "parse_text sample_loads None tool_text = Inr navigate_plan"
    by (simp add: parse_text_def e1 sample_loads_def idle_text_def)
  have e2: "extract_json ''I cannot help'' = ''I cannot help''"
    by (simp add: extract_json_def py_strip_def is_space_def brace_search_def Let_def)
  have p2: "\<forall>t \<in> set (replicate 5 ''I cannot help''). \<exists>e. parse_text sample_loads None t = Inl e"
    by (simp add: parse_text_def e2 sample_loads_def idle_text_def)
  have ct: "collect_tools (JArr [JObj [(''actions'', JArr [JObj [(''tool'', JStr ''navigate'')]])]])
              = Inr [JStr ''navigate'']"
    by (simp add: collect_tools_def action_tools_def bind_err_def)
  have q: "\<exists>q. calculate_quality_score \<lparr> sr_content = tool_text, parsed_data = Some navigate_plan,
              is_valid = True, quality_score = 0, parse_error = None \<rparr> = Inr q"
    by (simp add: calculate_quality_score_def navigate_plan_def bind_err_def)
  have g: "py_truthy navigate_plan"
      "py_get_list navigate_plan ''subtasks''
         = Inr (JArr [JObj [(''actions'', JArr [JObj [(''tool'', JStr ''navigate'')]])]])"
    by (simp_all add: navigate_plan_def)
  show ?thesis
    using identical_samples_consistency[where json_loads=sample_loads and parse_fn=None
            and s=tool_text and d=navigate_plan and validate_fn=None
            and subs="JArr [JObj [(''actions'', JArr [JObj [(''tool'', JStr ''navigate'')]])]]"
            and ts="[JStr ''navigate'']" and gen=default_generator and dumps=no_dumps
            and samples="replicate 5 ''I cannot help''"]
          p1 p2 ct q g
    by simp
qed

text \<open>End to end in the default parallel mode: five oracle calls, none dropped.\<close>

lemma sample_multiple_parallel:
  assumes "parallel gen" "num_samples gen = 5" "\<forall>i < 5. generate i = Inr s"
  shows "sample_multiple gen json_loads generate = Inr (replicate 5 s)"
  using assms by (simp add: sample_multiple_def upt_five replicate_five)

section \<open>Properties of the plan-response parser\<close>














end
